theory Spec2Isabelle
  imports Complex_Main
begin

section \<open>JavaScript values used by the pages\<close>

text \<open>
  A JavaScript \<open>number\<close> is modelled as an exact rational: sums, products and the
  decimal rounding of \<open>toFixed\<close> are those of the rationals, and the rounding error of
  IEEE-754 double arithmetic is outside the model. Strings are \<open>char list\<close>s of ASCII
  text: \<open>trim\<close> removes the ASCII white space that \<open>String.prototype.trim\<close> removes and
  \<open>toLowerCase\<close> maps \<open>A\<close>..\<open>Z\<close> to \<open>a\<close>..\<open>z\<close>.
\<close>

definition Math_round :: "rat \<Rightarrow> int" where
  \<comment> \<open>\<open>Math.round\<close>: the nearest integer, a tie going up.\<close>
  "Math_round x = \<lfloor>x + 1 / 2\<rfloor>"

definition toFixed1 :: "rat \<Rightarrow> rat" where
  \<comment> \<open>\<open>Number(x.toFixed(1))\<close>: the nearest tenth, a tie going away from zero.\<close>
  "toFixed1 x =
     (if x < 0 then - (of_int \<lfloor>- x * 10 + 1 / 2\<rfloor> / 10)
      else of_int \<lfloor>x * 10 + 1 / 2\<rfloor> / 10)"

definition is_space :: "char \<Rightarrow> bool" where
  "is_space c = (c \<in> set [CHR 0x09, CHR 0x0A, CHR 0x0B, CHR 0x0C, CHR 0x0D, CHR '' ''])"

definition trim :: "string \<Rightarrow> string" where
  "trim s = rev (dropWhile is_space (rev (dropWhile is_space s)))"

definition lower_char :: "char \<Rightarrow> char" where
  "lower_char c =
     (let n = (of_char c :: nat) in if 65 \<le> n \<and> n \<le> 90 then char_of (n + 32) else c)"

definition toLowerCase :: "string \<Rightarrow> string" where
  "toLowerCase s = map lower_char s"

fun split_comma :: "string \<Rightarrow> string list" where
  \<comment> \<open>\<open>s.split(",")\<close>; the empty string splits into one empty token.\<close>
  "split_comma [] = [[]]"
| "split_comma (c # cs) =
     (if c = CHR '','' then [] # split_comma cs
      else (case split_comma cs of [] \<Rightarrow> [[c]] | t # ts \<Rightarrow> (c # t) # ts))"

fun str_le :: "string \<Rightarrow> string \<Rightarrow> bool" where
  \<comment> \<open>ascending alphabetical order: the code-unit order of JavaScript's string comparison\<close>
  "str_le [] ys = True"
| "str_le (x # xs) [] = False"
| "str_le (x # xs) (y # ys) =
     ((of_char x :: nat) < of_char y \<or> (x = y \<and> str_le xs ys))"

section \<open>calorie-calculator/page.tsx\<close>

datatype Sex = female | male
datatype Goal = goal_maintain | deficit | surplus
datatype Activity = sedentary | light | moderate | very | extra

fun activityMultiplier :: "Activity \<Rightarrow> rat" where
  "activityMultiplier sedentary = 1.2"
| "activityMultiplier light = 1.375"
| "activityMultiplier moderate = 1.55"
| "activityMultiplier very = 1.725"
| "activityMultiplier extra = 1.9"

definition bmr :: "Sex \<Rightarrow> rat \<Rightarrow> rat \<Rightarrow> rat \<Rightarrow> rat" where
  "bmr sex w h age =
     (let base = 10 * w + 6.25 * h - 5 * age
      in if sex = male then base + 5 else base - 161)"

record calc_result =
  res_bmr :: int
  res_tdee :: int
  res_recommended :: int

definition calc_result :: "Sex \<Rightarrow> rat \<Rightarrow> rat \<Rightarrow> rat \<Rightarrow> Activity \<Rightarrow> Goal \<Rightarrow> calc_result" where
  \<comment> \<open>the \<open>useMemo\<close> body of \<open>CalorieCalculator\<close>, as a function of the six state values\<close>
  "calc_result sex age height weight activity goal =
     (let base = bmr sex weight height age;
          tdee = base * activityMultiplier activity;
          calories = tdee;
          calories = (if goal = deficit then tdee * 0.85 else calories);
          calories = (if goal = surplus then tdee * 1.1 else calories)
      in \<lparr>res_bmr = Math_round base, res_tdee = Math_round tdee,
          res_recommended = Math_round calories\<rparr>)"

section \<open>planner/page.tsx: the form and the request payloads\<close>

datatype diet_type = vegetarian | non_vegetarian
datatype goal = lose_weight | maintain | gain_muscle

record form =
  form_calories :: rat
  form_meals_per_day :: rat
  form_days :: rat
  form_diet_type :: diet_type
  form_goal :: goal
  form_allergies :: string
  form_exclude_ultra_processed :: bool
  form_variety :: bool

definition parse_allergies :: "string \<Rightarrow> string list" where
  \<comment> \<open>\<open>text.split(",").map((a) => a.trim()).filter(Boolean)\<close>\<close>
  "parse_allergies text = filter (\<lambda>a. a \<noteq> []) (map trim (split_comma text))"

record generate_request =
  g_calories :: rat
  g_meals_per_day :: rat
  g_days :: rat
  g_diet_type :: diet_type
  g_goal :: goal
  g_allergies :: "string list"
  g_exclude_ultra_processed :: bool
  g_variety :: bool

text \<open>
  The JSON body of a replace-meal request. Both pages post to the same endpoint; a key
  that a page does not write is \<open>None\<close>. A target that is not finite (a division by
  zero) is \<open>None\<close> too, as \<open>JSON.stringify\<close> writes it as \<open>null\<close>.
\<close>

record replace_request =
  r_calories :: rat
  r_meals_per_day :: rat
  r_diet_type :: diet_type
  r_goal :: goal
  r_allergies :: "string list"
  r_exclude_ultra_processed :: bool
  r_variety :: "bool option"
  r_day :: "int option"
  r_slot :: "string option"
  r_target_meal_calories :: "rat option"
  r_exclude_recipe_ids :: "int list option"

definition generate_payload :: "form \<Rightarrow> generate_request" where
  \<comment> \<open>the \<open>payload\<close> of \<open>handleGenerate\<close>\<close>
  "generate_payload f =
     \<lparr>g_calories = form_calories f,
      g_meals_per_day = form_meals_per_day f,
      g_days = form_days f,
      g_diet_type = form_diet_type f,
      g_goal = form_goal f,
      g_allergies = filter (\<lambda>a. a \<noteq> []) (map trim (split_comma (form_allergies f))),
      g_exclude_ultra_processed = form_exclude_ultra_processed f,
      g_variety = form_variety f\<rparr>"

definition replace_payload :: "form \<Rightarrow> int \<Rightarrow> string \<Rightarrow> rat \<Rightarrow> int list \<Rightarrow> replace_request" where
  \<comment> \<open>the \<open>payload\<close> of \<open>handleReplace\<close>, with \<open>activeDay\<close> as second argument\<close>
  "replace_payload f aday slt target excludeIds =
     \<lparr>r_calories = form_calories f,
      r_meals_per_day = form_meals_per_day f,
      r_diet_type = form_diet_type f,
      r_goal = form_goal f,
      r_allergies = filter (\<lambda>a. a \<noteq> []) (map trim (split_comma (form_allergies f))),
      r_exclude_ultra_processed = form_exclude_ultra_processed f,
      r_variety = Some (form_variety f),
      r_day = Some aday,
      r_slot = Some slt,
      r_target_meal_calories = Some target,
      r_exclude_recipe_ids = Some excludeIds\<rparr>"

section \<open>planner/page.tsx: the plan, the responses and the handlers\<close>

text \<open>
  The plan is untyped (\<open>any\<close>) in the page. A field that the page reads through a
  default (\<open>mm.slot ?? mm.meal_type\<close>, \<open>Number(mm.calories || 0)\<close>, \<open>d.meals ?? []\<close>,
  \<open>mm.ingredients ?? []\<close>, \<open>d.totals?.calories || 0\<close>) is optional here. The
  \<open>explain\<close> record of a meal is only displayed and is left out.
\<close>

record meal =
  slot :: "string option"
  meal_type :: string
  recipe_id :: int
  meal_name :: string
  calories :: "rat option"
  protein_g :: "rat option"
  carbs_g :: "rat option"
  fat_g :: "rat option"
  ingredients :: "string list option"
  target_calories :: rat

record macro_totals =
  t_calories :: rat
  t_protein_g :: rat
  t_carbs_g :: rat
  t_fat_g :: rat

record day_plan =
  day :: int
  meals :: "meal list option"
  totals :: "macro_totals option"

record shopping_item =
  ingredient :: string
  item_count :: nat

record shopping_list =
  total_unique :: nat
  items :: "shopping_item list"

record plan =
  days :: "day_plan list option"
  overall_totals :: "macro_totals option"
  shopping_list :: "shopping_list option"

text \<open>The types that meal-plan/page.tsx declares for the same two endpoints.\<close>

record Ingredient =
  FoodID :: int
  FoodDescription :: string
  FoodGroupName :: string

record MacroTotals =
  calories_kcal :: rat
  mt_protein_g :: rat
  mt_fat_g :: rat
  mt_carbs_g :: rat

record MealFromAPI =
  meal_number :: int
  recipe_name :: string
  api_target_calories :: rat
  api_ingredients :: "Ingredient list"
  meal_totals :: MacroTotals

record DayFromAPI =
  api_day :: int
  api_meals :: "MealFromAPI list"
  day_totals :: MacroTotals

record MealPlanRequest =
  q_calories :: rat
  q_meals_per_day :: rat
  q_days :: rat
  q_diet_type :: diet_type
  q_goal :: goal
  q_allergies :: "string list option"
  q_exclude_ultra_processed :: "bool option"
  q_variety :: "bool option"

record MealPlanResponseOK =
  request :: MealPlanRequest
  api_plan :: "DayFromAPI list"
  plan_totals :: MacroTotals

record replacement =
  rp_recipe_name :: string
  rp_ingredients :: "Ingredient list"
  rp_totals :: MacroTotals

text \<open>
  What \<open>fetch\<close> and \<open>res.json()\<close> give: the call is aborted or rejected, or there is a
  response with its HTTP status code and its body, \<open>None\<close> when the body is not JSON.
  The message of an exception that the runtime raises is a constructor of \<open>err_msg\<close>.
\<close>

datatype err_msg = Text string | NetworkError | JsonParseError | TypeError | HttpFailed nat

datatype 'b fetch_result = Aborted | Rejected | Response nat "'b option"

definition res_ok :: "nat \<Rightarrow> bool" where
  "res_ok code = (200 \<le> code \<and> code \<le> 299)"

record generate_body =
  gb_status :: "string option"
  gb_plan :: "plan option"
  gb_message :: "string option"
  gb_detail :: "string option"

record replace_body =
  rb_status :: "string option"
  rb_meal :: "meal option"
  rb_replacement :: "replacement option"
  rb_detail :: "string option"
  rb_message :: "string option"

text \<open>
  The state of \<open>PlannerPage\<close>; \<open>result\<close> is \<open>result?.plan\<close>, the only part of the response
  that the page reads. The progress bar is left out.
\<close>

record planner_state =
  form :: form
  loading :: bool
  error :: "err_msg option"
  result :: "plan option"
  activeDay :: int

definition generate_try :: "generate_body fetch_result \<Rightarrow> err_msg + generate_body" where
  \<comment> \<open>the \<open>try\<close> block of \<open>handleGenerate\<close> after the request; \<open>Inl\<close> is the message caught\<close>
  "generate_try fr =
     (case fr of
        Aborted \<Rightarrow> Inl (Text ''Request timed out. Try again (or your backend is slow / stuck).'')
      | Rejected \<Rightarrow> Inl NetworkError
      | Response code None \<Rightarrow> Inl JsonParseError
      | Response code (Some data) \<Rightarrow>
          if \<not> res_ok code then
            Inl (Text (case gb_detail data of Some d \<Rightarrow> d
                       | None \<Rightarrow> (case gb_message data of Some m \<Rightarrow> m | None \<Rightarrow> ''Backend error'')))
          else if gb_status data \<noteq> Some ''ok'' then
            Inl (Text (case gb_message data of Some m \<Rightarrow> m | None \<Rightarrow> ''Unable to generate plan''))
          else Inr data)"

definition handleGenerate ::
  "(generate_request \<Rightarrow> generate_body fetch_result) \<Rightarrow> planner_state \<Rightarrow> planner_state" where
  "handleGenerate server st =
     (if loading st then st
      else (case generate_try (server (generate_payload (form st))) of
              Inr data \<Rightarrow> st\<lparr>loading := False, error := None, result := gb_plan data, activeDay := 1\<rparr>
            | Inl msg \<Rightarrow> st\<lparr>loading := False, error := Some msg, result := None\<rparr>))"

definition num :: "rat option \<Rightarrow> rat" where
  \<comment> \<open>\<open>Number(v || 0)\<close>\<close>
  "num v = (case v of None \<Rightarrow> 0 | Some x \<Rightarrow> x)"

definition slot_key :: "meal \<Rightarrow> string" where
  \<comment> \<open>\<open>mm.slot ?? mm.meal_type\<close>\<close>
  "slot_key mm = (case slot mm of Some s \<Rightarrow> s | None \<Rightarrow> meal_type mm)"

definition meals_of :: "day_plan \<Rightarrow> meal list" where
  "meals_of d = (case meals d of None \<Rightarrow> [] | Some ms \<Rightarrow> ms)"

definition days_of :: "plan \<Rightarrow> day_plan list" where
  "days_of p = (case days p of None \<Rightarrow> [] | Some ds \<Rightarrow> ds)"

definition ingredients_of :: "meal \<Rightarrow> string list" where
  "ingredients_of mm = (case ingredients mm of None \<Rightarrow> [] | Some is \<Rightarrow> is)"

definition zero_totals :: macro_totals where
  "zero_totals = \<lparr>t_calories = 0, t_protein_g = 0, t_carbs_g = 0, t_fat_g = 0\<rparr>"

definition add_meal :: "macro_totals \<Rightarrow> meal \<Rightarrow> macro_totals" where
  \<comment> \<open>the reducer of the day totals\<close>
  "add_meal acc mm =
     \<lparr>t_calories = t_calories acc + num (calories mm),
      t_protein_g = t_protein_g acc + num (protein_g mm),
      t_carbs_g = t_carbs_g acc + num (carbs_g mm),
      t_fat_g = t_fat_g acc + num (fat_g mm)\<rparr>"

definition add_day :: "macro_totals \<Rightarrow> day_plan \<Rightarrow> macro_totals" where
  \<comment> \<open>the reducer of the overall totals\<close>
  "add_day acc d =
     \<lparr>t_calories = t_calories acc + (case totals d of None \<Rightarrow> 0 | Some t \<Rightarrow> t_calories t),
      t_protein_g = t_protein_g acc + (case totals d of None \<Rightarrow> 0 | Some t \<Rightarrow> t_protein_g t),
      t_carbs_g = t_carbs_g acc + (case totals d of None \<Rightarrow> 0 | Some t \<Rightarrow> t_carbs_g t),
      t_fat_g = t_fat_g acc + (case totals d of None \<Rightarrow> 0 | Some t \<Rightarrow> t_fat_g t)\<rparr>"

definition round_totals :: "macro_totals \<Rightarrow> macro_totals" where
  "round_totals t =
     \<lparr>t_calories = toFixed1 (t_calories t), t_protein_g = toFixed1 (t_protein_g t),
      t_carbs_g = toFixed1 (t_carbs_g t), t_fat_g = toFixed1 (t_fat_g t)\<rparr>"

definition update_day :: "int \<Rightarrow> string \<Rightarrow> meal option \<Rightarrow> day_plan \<Rightarrow> day_plan option" where
  \<comment> \<open>the callback of \<open>newDays\<close>; \<open>None\<close> is the TypeError of reading a field of an
      undefined \<open>newMeal\<close> that was put into the meal list\<close>
  "update_day aday slt newMeal d =
     (if day d \<noteq> aday then Some d
      else (case those (map (\<lambda>mm. if slot_key mm = slt then newMeal else Some mm) (meals_of d)) of
              None \<Rightarrow> None
            | Some updatedMeals \<Rightarrow>
                (let t = foldl add_meal zero_totals updatedMeals
                 in Some (d\<lparr>meals := Some updatedMeals, totals := Some (round_totals t)\<rparr>))))"

fun ctr_set :: "string \<Rightarrow> nat \<Rightarrow> (string \<times> nat) list \<Rightarrow> (string \<times> nat) list" where
  \<comment> \<open>\<open>Map.prototype.set\<close> on a map kept in insertion order\<close>
  "ctr_set k v [] = [(k, v)]"
| "ctr_set k v ((k', v') # kvs) =
     (if k' = k then (k, v) # kvs else (k', v') # ctr_set k v kvs)"

definition count_ingredient :: "(string \<times> nat) list \<Rightarrow> string \<Rightarrow> (string \<times> nat) list" where
  \<comment> \<open>the body of the innermost loop\<close>
  "count_ingredient ctr ing =
     (let k = toLowerCase (trim ing)
      in if k = [] then ctr
         else ctr_set k ((case map_of ctr k of None \<Rightarrow> 0 | Some c \<Rightarrow> c) + 1) ctr)"

definition count_plan :: "day_plan list \<Rightarrow> (string \<times> nat) list" where
  "count_plan newDays =
     foldl (\<lambda>ctr d. foldl (\<lambda>ctr mm. foldl count_ingredient ctr (ingredients_of mm)) ctr (meals_of d))
       [] newDays"

definition shopping_items :: "day_plan list \<Rightarrow> shopping_item list" where
  \<comment> \<open>\<open>Array.from(ctr.entries()).sort((a, b) => b[1] - a[1]).map(...)\<close>; the sort is stable\<close>
  "shopping_items newDays =
     map (\<lambda>(i, c). \<lparr>ingredient = i, item_count = c\<rparr>)
       (sort_key (\<lambda>e. - int (snd e)) (count_plan newDays))"

definition replace_try :: "plan \<Rightarrow> int \<Rightarrow> string \<Rightarrow> replace_body fetch_result \<Rightarrow> err_msg + plan" where
  \<comment> \<open>the \<open>try\<close> block of \<open>handleReplace\<close> after the request\<close>
  "replace_try p aday slt fr =
     (case fr of
        Aborted \<Rightarrow> Inl NetworkError
      | Rejected \<Rightarrow> Inl NetworkError
      | Response code None \<Rightarrow> Inl JsonParseError
      | Response code (Some data) \<Rightarrow>
          if \<not> res_ok code \<or> rb_status data \<noteq> Some ''ok'' then
            Inl (Text (case rb_detail data of Some d \<Rightarrow> d | None \<Rightarrow> ''Replace failed''))
          else
            (case those (map (update_day aday slt (rb_meal data)) (days_of p)) of
               None \<Rightarrow> Inl TypeError
             | Some newDays \<Rightarrow>
                 (let overall = foldl add_day zero_totals newDays;
                      shoppingItems = shopping_items newDays
                  in Inr (p\<lparr>days := Some newDays,
                            overall_totals := Some (round_totals overall),
                            shopping_list := Some \<lparr>total_unique = length shoppingItems,
                                                   items = shoppingItems\<rparr>\<rparr>))))"

definition handleReplace ::
  "(replace_request \<Rightarrow> replace_body fetch_result) \<Rightarrow> planner_state \<Rightarrow> string \<Rightarrow> rat \<Rightarrow> int list
     \<Rightarrow> planner_state" where
  "handleReplace server st slt target excludeIds =
     (case result st of
        None \<Rightarrow> st
      | Some p \<Rightarrow>
          (case replace_try p (activeDay st) slt
                  (server (replace_payload (form st) (activeDay st) slt target excludeIds)) of
             Inl msg \<Rightarrow> st\<lparr>error := Some msg\<rparr>
           | Inr next \<Rightarrow> st\<lparr>error := None, result := Some next\<rparr>))"

definition MealCard_request :: "form \<Rightarrow> int \<Rightarrow> meal \<Rightarrow> replace_request" where
  \<comment> \<open>the request that the Replace button of a meal's card sends\<close>
  "MealCard_request f aday m =
     replace_payload f aday (slot_key m) (target_calories m) [recipe_id m]"

definition MealCard_onReplace ::
  "(replace_request \<Rightarrow> replace_body fetch_result) \<Rightarrow> planner_state \<Rightarrow> meal \<Rightarrow> planner_state" where
  \<comment> \<open>\<open>onReplace(meal.slot ?? meal.meal_type, Number(meal.target_calories), [Number(meal.recipe_id)])\<close>\<close>
  "MealCard_onReplace server st m =
     handleReplace server st (slot_key m) (target_calories m) [recipe_id m]"

section \<open>meal-plan/page.tsx: the handler\<close>

text \<open>
  The state of \<open>MealPlanPage\<close>; \<open>data\<close> is the response held when its status is "ok"
  (\<open>hasPlan\<close>), else \<open>None\<close>. The busy marker of the button and the copy of the plan
  written to the session storage are left out: the handler writes both and reads
  neither.
\<close>

record mealplan_state =
  data :: "MealPlanResponseOK option"
  mp_activeDay :: int
  err :: "err_msg option"

definition active :: "MealPlanResponseOK \<Rightarrow> int \<Rightarrow> DayFromAPI option" where
  \<comment> \<open>\<open>data.plan.find((d) => d.day === activeDay) ?? data.plan[0] ?? null\<close>\<close>
  "active d aday =
     (case find (\<lambda>x. api_day x = aday) (api_plan d) of
        Some x \<Rightarrow> Some x
      | None \<Rightarrow> (case api_plan d of [] \<Rightarrow> None | x # _ \<Rightarrow> Some x))"

definition active_meal :: "MealPlanResponseOK \<Rightarrow> int \<Rightarrow> int \<Rightarrow> MealFromAPI option" where
  \<comment> \<open>\<open>day?.meals.find((m) => m.meal_number === meal_number)\<close> with \<open>day = active\<close>\<close>
  "active_meal d aday n =
     (case active d aday of
        None \<Rightarrow> None
      | Some dy \<Rightarrow> find (\<lambda>m. meal_number m = n) (api_meals dy))"

definition replace_target :: "MealPlanResponseOK \<Rightarrow> int \<Rightarrow> int \<Rightarrow> rat option" where
  \<comment> \<open>\<open>target\<close>: the target stored with the meal, else
      \<open>req.calories / req.meals_per_day\<close>; a division by zero gives no finite number\<close>
  "replace_target d aday n =
     (case active_meal d aday n of
        Some m \<Rightarrow> Some (api_target_calories m)
      | None \<Rightarrow>
          if q_meals_per_day (request d) = 0 then None
          else Some (q_calories (request d) / q_meals_per_day (request d)))"

definition mealplan_payload :: "MealPlanResponseOK \<Rightarrow> int \<Rightarrow> int \<Rightarrow> replace_request" where
  \<comment> \<open>the \<open>payload\<close> of \<open>handleReplaceMeal\<close>\<close>
  "mealplan_payload d aday n =
     \<lparr>r_calories = q_calories (request d),
      r_meals_per_day = q_meals_per_day (request d),
      r_diet_type = q_diet_type (request d),
      r_goal = q_goal (request d),
      r_allergies = (case q_allergies (request d) of None \<Rightarrow> [] | Some a \<Rightarrow> a),
      r_exclude_ultra_processed =
        (case q_exclude_ultra_processed (request d) of None \<Rightarrow> False | Some b \<Rightarrow> b),
      r_variety = None,
      r_day = None,
      r_slot = None,
      r_target_meal_calories = replace_target d aday n,
      r_exclude_recipe_ids = None\<rparr>"

definition empty_body :: replace_body where
  "empty_body = \<lparr>rb_status = None, rb_meal = None, rb_replacement = None,
                 rb_detail = None, rb_message = None\<rparr>"

definition mealplan_replace_try :: "replace_body fetch_result \<Rightarrow> err_msg + replacement" where
  "mealplan_replace_try fr =
     (case fr of
        Aborted \<Rightarrow> Inl NetworkError
      | Rejected \<Rightarrow> Inl NetworkError
      | Response code body \<Rightarrow>
          (let j = (case body of None \<Rightarrow> empty_body | Some b \<Rightarrow> b)
           in if \<not> res_ok code then
                Inl (case rb_detail j of Some d \<Rightarrow> Text d
                     | None \<Rightarrow> (case rb_message j of Some m \<Rightarrow> Text m | None \<Rightarrow> HttpFailed code))
              else if rb_status j \<noteq> Some ''ok'' then
                Inl (Text (case rb_message j of Some m \<Rightarrow> m | None \<Rightarrow> ''No replacement returned''))
              else (case rb_replacement j of
                      None \<Rightarrow>
                        Inl (Text (case rb_message j of Some m \<Rightarrow> m
                                   | None \<Rightarrow> ''No replacement returned''))
                    | Some r \<Rightarrow> Inr r)))"

definition zero_MacroTotals :: MacroTotals where
  "zero_MacroTotals = \<lparr>calories_kcal = 0, mt_protein_g = 0, mt_fat_g = 0, mt_carbs_g = 0\<rparr>"

definition add_MacroTotals :: "MacroTotals \<Rightarrow> MacroTotals \<Rightarrow> MacroTotals" where
  "add_MacroTotals acc t =
     \<lparr>calories_kcal = calories_kcal acc + calories_kcal t,
      mt_protein_g = mt_protein_g acc + mt_protein_g t,
      mt_fat_g = mt_fat_g acc + mt_fat_g t,
      mt_carbs_g = mt_carbs_g acc + mt_carbs_g t\<rparr>"

definition replace_in_day :: "int \<Rightarrow> int \<Rightarrow> replacement \<Rightarrow> DayFromAPI \<Rightarrow> DayFromAPI" where
  \<comment> \<open>the callback of \<open>newPlan\<close>\<close>
  "replace_in_day aday n r d =
     (if api_day d \<noteq> aday then d
      else (let newMeals =
                  map (\<lambda>m. if meal_number m = n
                            then m\<lparr>recipe_name := rp_recipe_name r,
                                   api_ingredients := rp_ingredients r,
                                   meal_totals := rp_totals r\<rparr>
                            else m) (api_meals d);
                dayTotals = foldl (\<lambda>acc m. add_MacroTotals acc (meal_totals m)) zero_MacroTotals newMeals
            in d\<lparr>api_meals := newMeals, day_totals := dayTotals\<rparr>))"

definition apply_replacement :: "MealPlanResponseOK \<Rightarrow> int \<Rightarrow> int \<Rightarrow> replacement \<Rightarrow> MealPlanResponseOK" where
  \<comment> \<open>the updater passed to \<open>setData\<close>\<close>
  "apply_replacement prev aday n r =
     (let newPlan = map (replace_in_day aday n r) (api_plan prev);
          planTotals = foldl (\<lambda>acc d. add_MacroTotals acc (day_totals d)) zero_MacroTotals newPlan
      in prev\<lparr>api_plan := newPlan, plan_totals := planTotals\<rparr>)"

definition handleReplaceMeal ::
  "(replace_request \<Rightarrow> replace_body fetch_result) \<Rightarrow> mealplan_state \<Rightarrow> int \<Rightarrow> mealplan_state" where
  "handleReplaceMeal server st n =
     (case data st of
        None \<Rightarrow> st
      | Some d \<Rightarrow>
          (case mealplan_replace_try (server (mealplan_payload d (mp_activeDay st) n)) of
             Inl msg \<Rightarrow> st\<lparr>err := Some msg\<rparr>
           | Inr r \<Rightarrow> st\<lparr>err := None,
                        data := Some (apply_replacement d (mp_activeDay st) n r)\<rparr>))"

definition handleReplace_request ::
  "planner_state \<Rightarrow> string \<Rightarrow> rat \<Rightarrow> int list \<Rightarrow> replace_request option" where
  \<comment> \<open>the request that \<open>handleReplace\<close> posts, if it posts one\<close>
  "handleReplace_request st slt target excludeIds =
     (case result st of
        None \<Rightarrow> None
      | Some p \<Rightarrow> Some (replace_payload (form st) (activeDay st) slt target excludeIds))"

definition handleReplaceMeal_request :: "mealplan_state \<Rightarrow> int \<Rightarrow> replace_request option" where
  \<comment> \<open>the request that \<open>handleReplaceMeal\<close> posts, if it posts one\<close>
  "handleReplaceMeal_request st n =
     (case data st of
        None \<Rightarrow> None
      | Some d \<Rightarrow> Some (mealplan_payload d (mp_activeDay st) n))"

text \<open>
  The meal-plan page with the session storage. The page takes its plan from the item
  \<open>meal_plan_result\<close> of the session storage when it is opened, and nothing else gives it
  one. Of all pages, only \<open>handleReplaceMeal\<close> writes that item, after a replacement in a
  plan it already holds; the New Plan button removes it. The storage of a session starts
  without the item.
\<close>

record mealplan_session =
  page :: mealplan_state
  stored :: "MealPlanResponseOK option"

definition initial_page :: mealplan_state where
  \<comment> \<open>the initial values of the \<open>useState\<close> calls\<close>
  "initial_page = \<lparr>data = None, mp_activeDay = 1, err = None\<rparr>"

definition open_page :: "mealplan_session \<Rightarrow> mealplan_session" where
  \<comment> \<open>the page is opened: the effect reads the stored item\<close>
  "open_page s =
     s\<lparr>page :=
         (case stored s of
            None \<Rightarrow> initial_page
          | Some parsed \<Rightarrow>
              \<lparr>data = Some parsed,
               mp_activeDay = (case api_plan parsed of [] \<Rightarrow> 1 | d # _ \<Rightarrow> api_day d),
               err = None\<rparr>)\<rparr>"

definition pick_day :: "int \<Rightarrow> mealplan_session \<Rightarrow> mealplan_session" where
  \<comment> \<open>a day button: \<open>setActiveDay(d.day)\<close>\<close>
  "pick_day k s = s\<lparr>page := (page s)\<lparr>mp_activeDay := k\<rparr>\<rparr>"

definition replace_meal ::
  "(replace_request \<Rightarrow> replace_body fetch_result) \<Rightarrow> int \<Rightarrow> mealplan_session \<Rightarrow> mealplan_session" where
  \<comment> \<open>the Replace button: \<open>handleReplaceMeal\<close>, which stores the new plan when it has one\<close>
  "replace_meal server n s =
     (let pg = handleReplaceMeal server (page s) n
      in s\<lparr>page := pg,
           stored := (if data (page s) \<noteq> None \<and> err pg = None then data pg else stored s)\<rparr>)"

definition new_plan :: "mealplan_session \<Rightarrow> mealplan_session" where
  \<comment> \<open>the New Plan button: \<open>sessionStorage.removeItem("meal_plan_result")\<close>\<close>
  "new_plan s = s\<lparr>stored := None\<rparr>"

inductive reachable :: "mealplan_session \<Rightarrow> bool" where
  start: "reachable \<lparr>page = initial_page, stored = None\<rparr>"
| opened: "reachable s \<Longrightarrow> reachable (open_page s)"
| picked: "reachable s \<Longrightarrow> reachable (pick_day k s)"
| replaced: "reachable s \<Longrightarrow> reachable (replace_meal server n s)"
| cleared: "reachable s \<Longrightarrow> reachable (new_plan s)"

section \<open>The engine behind the two endpoints\<close>

text \<open>
  The server that answers \<open>generate-plan\<close> and \<open>replace-meal\<close> is not among the source
  files. Where a property is about what the server does, the server is modelled from the
  specification, and only as far as the property needs.
\<close>

datatype server_error = ValidationError string | CorpusExhausted | ReplacementExhausted

record recipe =
  rc_id :: int
  rc_name :: string
  rc_vegetarian :: bool
  rc_ultra_processed :: bool
  rc_ingredients :: "string list"

fun starts_with :: "string \<Rightarrow> string \<Rightarrow> bool" where
  "starts_with [] s = True"
| "starts_with (a # as) [] = False"
| "starts_with (a # as) (c # cs) = (a = c \<and> starts_with as cs)"

fun contains :: "string \<Rightarrow> string \<Rightarrow> bool" where
  "contains a [] = (a = [])"
| "contains a (c # cs) = (starts_with a (c # cs) \<or> contains a cs)"

text \<open>
  Modelled from the spec: the Constraint Filter (section 4.2), which is not under src/.
  Its four rules in order: diet type mismatch, ultra-processed exclusion, an allergy
  string (case-insensitive, trimmed) found in an ingredient description, and the
  identifier being in the exclusion set of the caller.
\<close>

definition filter_accept :: "replace_request \<Rightarrow> recipe \<Rightarrow> bool" where
  "filter_accept req r =
     (if r_diet_type req = vegetarian \<and> \<not> rc_vegetarian r then False
      else if r_exclude_ultra_processed req \<and> rc_ultra_processed r then False
      else if (\<exists>a \<in> set (r_allergies req). \<exists>i \<in> set (rc_ingredients r).
                 contains (toLowerCase (trim a)) (toLowerCase i)) then False
      else if rc_id r \<in> set (case r_exclude_recipe_ids req of None \<Rightarrow> [] | Some ids \<Rightarrow> ids)
        then False
      else True)"

text \<open>
  Modelled from the spec: the selection of the Candidate Scorer (section 4.3), which is
  not under src/: the candidate of minimum score, a tie going to the smaller identifier.
  The score itself is a parameter.
\<close>

fun select_best :: "(recipe \<Rightarrow> rat) \<Rightarrow> recipe list \<Rightarrow> recipe option" where
  "select_best score [] = None"
| "select_best score (r # rs) =
     (case select_best score rs of
        None \<Rightarrow> Some r
      | Some b \<Rightarrow>
          if score r < score b \<or> (score r = score b \<and> rc_id r \<le> rc_id b) then Some r
          else Some b)"

text \<open>
  Modelled from the spec: the Replacement Engine (section 4.6), which is not under src/:
  Filter with the exclusion identifiers of the request, then Scorer, then the best
  candidate; \<open>ReplacementExhausted\<close> when no candidate survives.
\<close>

definition replace_engine ::
  "(recipe \<Rightarrow> rat) \<Rightarrow> recipe list \<Rightarrow> replace_request \<Rightarrow> server_error + recipe" where
  "replace_engine score corpus req =
     (case select_best score (filter (filter_accept req) corpus) of
        None \<Rightarrow> Inl ReplacementExhausted
      | Some r \<Rightarrow> Inr r)"

text \<open>
  Modelled from the spec: the request validation of section 7 (\<open>ValidationError\<close>), which
  is not under src/: days outside 1..14, meals-per-day outside 1..6 or calories outside
  their range are rejected, the message naming the field. The specification gives no
  range for the calories; its two bounds are parameters.
\<close>

definition validate_request :: "rat \<Rightarrow> rat \<Rightarrow> generate_request \<Rightarrow> server_error + generate_request" where
  "validate_request cal_min cal_max req =
     (if g_days req < 1 \<or> 14 < g_days req then Inl (ValidationError ''days'')
      else if g_meals_per_day req < 1 \<or> 6 < g_meals_per_day req
        then Inl (ValidationError ''meals_per_day'')
      else if g_calories req < cal_min \<or> cal_max < g_calories req
        then Inl (ValidationError ''calories'')
      else Inr req)"

text \<open>
  Modelled from the spec: plan generation as far as its error policy goes (section 7),
  not under src/: validation comes first, and only a valid request reaches the composer,
  the one function that is given the corpus.
\<close>

definition generate_plan ::
  "rat \<Rightarrow> rat \<Rightarrow> ('c \<Rightarrow> generate_request \<Rightarrow> server_error + 'p) \<Rightarrow> 'c \<Rightarrow> generate_request
     \<Rightarrow> server_error + 'p" where
  "generate_plan cal_min cal_max compose corpus req =
     (case validate_request cal_min cal_max req of
        Inl e \<Rightarrow> Inl e
      | Inr r \<Rightarrow> compose corpus r)"

text \<open>
  Modelled from the spec: the slot targets of the Meal Slot Composer (section 4.4), which
  is not under src/: every slot but the last gets the daily total divided by the number of
  meals and rounded to an integer, the last slot gets what is left. The specification
  does not name the rounding; it is the parameter \<open>rnd\<close>.
\<close>

definition slot_targets :: "(rat \<Rightarrow> int) \<Rightarrow> rat \<Rightarrow> nat \<Rightarrow> rat list" where
  "slot_targets rnd daily m =
     (if m = 0 then []
      else (let share = rnd (daily / of_nat m)
            in replicate (m - 1) (of_int share) @ [daily - of_nat (m - 1) * of_int share]))"

text \<open>
  Modelled from the spec: the replace-meal response of section 6, written by the server,
  which is not under src/: a replacement is answered with a 2xx status code, status "ok"
  and the new meal under \<open>meal\<close>; a failure with status "error" and its text under \<open>detail\<close>
  or under \<open>message\<close>. The two status codes and the choice of the key are parameters.
\<close>

definition replace_meal_response ::
  "nat \<Rightarrow> nat \<Rightarrow> bool \<Rightarrow> string + meal \<Rightarrow> replace_body fetch_result" where
  "replace_meal_response ok_code err_code in_detail outcome =
     (case outcome of
        Inr m \<Rightarrow>
          Response ok_code (Some \<lparr>rb_status = Some ''ok'', rb_meal = Some m,
                                  rb_replacement = None, rb_detail = None, rb_message = None\<rparr>)
      | Inl etext \<Rightarrow>
          Response err_code (Some \<lparr>rb_status = Some ''error'', rb_meal = None,
                                   rb_replacement = None,
                                   rb_detail = (if in_detail then Some etext else None),
                                   rb_message = (if in_detail then None else Some etext)\<rparr>))"

section \<open>Notions used to state the properties\<close>

definition first_occurrences :: "'a list \<Rightarrow> 'a list" where
  \<comment> \<open>the distinct elements of a list, in the order of their first occurrence\<close>
  "first_occurrences xs = rev (remdups (rev xs))"

definition plan_tokens :: "day_plan list \<Rightarrow> string list" where
  \<comment> \<open>the non-empty trimmed lower-cased ingredient strings of all meals of all days, in order\<close>
  "plan_tokens ds =
     filter (\<lambda>k. k \<noteq> [])
       (map (\<lambda>ing. toLowerCase (trim ing)) (concat (map ingredients_of (concat (map meals_of ds)))))"

fun count_desc_then_alpha :: "shopping_item list \<Rightarrow> bool" where
  \<comment> \<open>descending count, ties in ascending alphabetical order\<close>
  "count_desc_then_alpha [] = True"
| "count_desc_then_alpha [x] = True"
| "count_desc_then_alpha (x # y # zs) =
     ((item_count y < item_count x
        \<or> (item_count x = item_count y \<and> str_le (ingredient x) (ingredient y)))
      \<and> count_desc_then_alpha (y # zs))"

definition close_to :: "rat \<Rightarrow> rat \<Rightarrow> bool" where
  \<comment> \<open>equal within the rounding tolerance of 0.05\<close>
  "close_to x y = (\<bar>x - y\<bar> \<le> 1 / 20)"

definition day_totals_ok :: "day_plan \<Rightarrow> bool" where
  \<comment> \<open>the totals of a day are the sums over its meals, within the tolerance\<close>
  "day_totals_ok d =
     (case totals d of
        None \<Rightarrow> False
      | Some t \<Rightarrow>
          close_to (t_calories t) (sum_list (map (\<lambda>m. num (calories m)) (meals_of d)))
        \<and> close_to (t_protein_g t) (sum_list (map (\<lambda>m. num (protein_g m)) (meals_of d)))
        \<and> close_to (t_carbs_g t) (sum_list (map (\<lambda>m. num (carbs_g m)) (meals_of d)))
        \<and> close_to (t_fat_g t) (sum_list (map (\<lambda>m. num (fat_g m)) (meals_of d))))"

definition day_total :: "(macro_totals \<Rightarrow> rat) \<Rightarrow> day_plan \<Rightarrow> rat" where
  \<comment> \<open>\<open>Number(d.totals?.field || 0)\<close>\<close>
  "day_total fld d = (case totals d of None \<Rightarrow> 0 | Some t \<Rightarrow> fld t)"

definition overall_totals_ok :: "plan \<Rightarrow> bool" where
  \<comment> \<open>the overall totals are the sums of the day totals, within the tolerance\<close>
  "overall_totals_ok p =
     (case overall_totals p of
        None \<Rightarrow> False
      | Some t \<Rightarrow>
          close_to (t_calories t) (sum_list (map (day_total t_calories) (days_of p)))
        \<and> close_to (t_protein_g t) (sum_list (map (day_total t_protein_g) (days_of p)))
        \<and> close_to (t_carbs_g t) (sum_list (map (day_total t_carbs_g) (days_of p)))
        \<and> close_to (t_fat_g t) (sum_list (map (day_total t_fat_g) (days_of p))))"

definition sum_MacroTotals :: "MacroTotals list \<Rightarrow> MacroTotals" where
  "sum_MacroTotals ts =
     \<lparr>calories_kcal = sum_list (map calories_kcal ts),
      mt_protein_g = sum_list (map mt_protein_g ts),
      mt_fat_g = sum_list (map mt_fat_g ts),
      mt_carbs_g = sum_list (map mt_carbs_g ts)\<rparr>"

definition api_day_totals_ok :: "DayFromAPI \<Rightarrow> bool" where
  "api_day_totals_ok d = (day_totals d = sum_MacroTotals (map meal_totals (api_meals d)))"

definition api_plan_totals_ok :: "MealPlanResponseOK \<Rightarrow> bool" where
  "api_plan_totals_ok r = (plan_totals r = sum_MacroTotals (map day_totals (api_plan r)))"

definition bump :: "(string \<times> nat) list \<Rightarrow> string \<Rightarrow> (string \<times> nat) list" where
  \<comment> \<open>one more occurrence of a non-empty token: \<open>ctr.set(k, (ctr.get(k) ?? 0) + 1)\<close>\<close>
  "bump ctr k = ctr_set k ((case map_of ctr k of None \<Rightarrow> 0 | Some c \<Rightarrow> c) + 1) ctr"

definition sum_meals :: "meal list \<Rightarrow> macro_totals" where
  "sum_meals ms =
     \<lparr>t_calories = sum_list (map (\<lambda>m. num (calories m)) ms),
      t_protein_g = sum_list (map (\<lambda>m. num (protein_g m)) ms),
      t_carbs_g = sum_list (map (\<lambda>m. num (carbs_g m)) ms),
      t_fat_g = sum_list (map (\<lambda>m. num (fat_g m)) ms)\<rparr>"

definition sum_days :: "day_plan list \<Rightarrow> macro_totals" where
  "sum_days ds =
     \<lparr>t_calories = sum_list (map (day_total t_calories) ds),
      t_protein_g = sum_list (map (day_total t_protein_g) ds),
      t_carbs_g = sum_list (map (day_total t_carbs_g) ds),
      t_fat_g = sum_list (map (day_total t_fat_g) ds)\<rparr>"

definition planner_frame :: "int \<Rightarrow> string \<Rightarrow> meal \<Rightarrow> plan \<Rightarrow> plan \<Rightarrow> bool" where
  \<comment> \<open>\<open>nxt\<close> is \<open>p\<close> with the meal \<open>nm\<close> at every place of day number \<open>aday\<close> and slot \<open>slt\<close>:
      the same days in the same order, a day of another number untouched, and in a day
      of that number every meal of another slot untouched\<close>
  "planner_frame aday slt nm p nxt =
     (length (days_of nxt) = length (days_of p)
      \<and> (\<forall>i < length (days_of p).
            day (days_of nxt ! i) = day (days_of p ! i)
          \<and> (day (days_of p ! i) \<noteq> aday \<longrightarrow> days_of nxt ! i = days_of p ! i)
          \<and> length (meals_of (days_of nxt ! i)) = length (meals_of (days_of p ! i))
          \<and> (\<forall>j < length (meals_of (days_of p ! i)).
                meals_of (days_of nxt ! i) ! j =
                  (if day (days_of p ! i) = aday \<and> slot_key (meals_of (days_of p ! i) ! j) = slt
                   then nm else meals_of (days_of p ! i) ! j))))"

definition mealplan_frame ::
  "int \<Rightarrow> int \<Rightarrow> replacement \<Rightarrow> MealPlanResponseOK \<Rightarrow> MealPlanResponseOK \<Rightarrow> bool" where
  \<comment> \<open>the same for the meal-plan page, where a meal is found by its number and takes the
      name, the ingredients and the totals of the replacement\<close>
  "mealplan_frame aday n r prev nxt =
     (request nxt = request prev
      \<and> length (api_plan nxt) = length (api_plan prev)
      \<and> (\<forall>i < length (api_plan prev).
            api_day (api_plan nxt ! i) = api_day (api_plan prev ! i)
          \<and> (api_day (api_plan prev ! i) \<noteq> aday \<longrightarrow> api_plan nxt ! i = api_plan prev ! i)
          \<and> length (api_meals (api_plan nxt ! i)) = length (api_meals (api_plan prev ! i))
          \<and> (\<forall>j < length (api_meals (api_plan prev ! i)).
                api_meals (api_plan nxt ! i) ! j =
                  (if api_day (api_plan prev ! i) = aday
                      \<and> meal_number (api_meals (api_plan prev ! i) ! j) = n
                   then (api_meals (api_plan prev ! i) ! j)
                          \<lparr>recipe_name := rp_recipe_name r, api_ingredients := rp_ingredients r,
                           meal_totals := rp_totals r\<rparr>
                   else api_meals (api_plan prev ! i) ! j))))"

definition listed_items :: "planner_state \<Rightarrow> shopping_item list" where
  \<comment> \<open>\<open>result?.plan?.shopping_list?.items\<close>, the list that the page shows\<close>
  "listed_items st =
     (case result st of
        None \<Rightarrow> []
      | Some p \<Rightarrow> (case shopping_list p of None \<Rightarrow> [] | Some sl \<Rightarrow> items sl))"

definition planner_single_change :: "nat \<Rightarrow> nat \<Rightarrow> meal \<Rightarrow> plan \<Rightarrow> plan \<Rightarrow> bool" where
  \<comment> \<open>\<open>nxt\<close> is \<open>p\<close> with exactly the meal at place \<open>j0\<close> of the day at place \<open>i0\<close> replaced
      by \<open>nm\<close>: every other day is the same day, and every other meal of that day is the
      same meal\<close>
  "planner_single_change i0 j0 nm p nxt =
     (length (days_of nxt) = length (days_of p)
      \<and> (\<forall>i < length (days_of p).
            day (days_of nxt ! i) = day (days_of p ! i)
          \<and> (i \<noteq> i0 \<longrightarrow> days_of nxt ! i = days_of p ! i)
          \<and> length (meals_of (days_of nxt ! i)) = length (meals_of (days_of p ! i))
          \<and> (\<forall>j < length (meals_of (days_of p ! i)).
                meals_of (days_of nxt ! i) ! j =
                  (if i = i0 \<and> j = j0 then nm else meals_of (days_of p ! i) ! j))))"

definition mealplan_single_change ::
  "nat \<Rightarrow> nat \<Rightarrow> replacement \<Rightarrow> MealPlanResponseOK \<Rightarrow> MealPlanResponseOK \<Rightarrow> bool" where
  "mealplan_single_change i0 j0 r prev nxt =
     (request nxt = request prev
      \<and> length (api_plan nxt) = length (api_plan prev)
      \<and> (\<forall>i < length (api_plan prev).
            api_day (api_plan nxt ! i) = api_day (api_plan prev ! i)
          \<and> (i \<noteq> i0 \<longrightarrow> api_plan nxt ! i = api_plan prev ! i)
          \<and> length (api_meals (api_plan nxt ! i)) = length (api_meals (api_plan prev ! i))
          \<and> (\<forall>j < length (api_meals (api_plan prev ! i)).
                api_meals (api_plan nxt ! i) ! j =
                  (if i = i0 \<and> j = j0
                   then (api_meals (api_plan prev ! i) ! j)
                          \<lparr>recipe_name := rp_recipe_name r, api_ingredients := rp_ingredients r,
                           meal_totals := rp_totals r\<rparr>
                   else api_meals (api_plan prev ! i) ! j))))"

definition plan_recipe_ids :: "planner_state \<Rightarrow> int list list" where
  \<comment> \<open>the recipe identifiers of the plan that the page holds, day by day\<close>
  "plan_recipe_ids st =
     (case result st of None \<Rightarrow> [] | Some p \<Rightarrow> map (\<lambda>d. map recipe_id (meals_of d)) (days_of p))"

section \<open>Example inputs\<close>

text \<open>Concrete page states and server answers, on which the properties below are evaluated.\<close>

definition example_form :: form where
  "example_form = \<lparr>form_calories = 1800, form_meals_per_day = 3, form_days = 2,
     form_diet_type = non_vegetarian, form_goal = maintain, form_allergies = '' nuts, ,dairy '',
     form_exclude_ultra_processed = True, form_variety = True\<rparr>"

definition example_breakfast :: meal where
  "example_breakfast = \<lparr>slot = Some ''breakfast'', meal_type = ''breakfast'', recipe_id = 3,
     meal_name = ''Porridge'', calories = Some 400.5, protein_g = Some 20.25, carbs_g = Some 50,
     fat_g = Some 10, ingredients = Some [''Oats'', '' milk ''], target_calories = 600\<rparr>"

definition example_lunch :: meal where
  "example_lunch = \<lparr>slot = None, meal_type = ''lunch'', recipe_id = 7,
     meal_name = ''Chicken rice'', calories = Some 600, protein_g = Some 30, carbs_g = Some 70,
     fat_g = Some 20, ingredients = Some [''Rice'', ''chicken''], target_calories = 600\<rparr>"

definition example_new_meal :: meal where
  "example_new_meal = \<lparr>slot = None, meal_type = ''lunch'', recipe_id = 9,
     meal_name = ''Tofu bowl'', calories = Some 610.26, protein_g = Some 28, carbs_g = None,
     fat_g = Some 15.5, ingredients = Some [''Tofu'', '' rice'', '' ''], target_calories = 600\<rparr>"

definition example_plan :: plan where
  "example_plan = \<lparr>days = Some
       [\<lparr>day = 1, meals = Some [example_breakfast, example_lunch],
          totals = Some \<lparr>t_calories = 1000.5, t_protein_g = 50.3, t_carbs_g = 120, t_fat_g = 30\<rparr>\<rparr>,
        \<lparr>day = 2, meals = Some [example_breakfast],
          totals = Some \<lparr>t_calories = 400.5, t_protein_g = 20.3, t_carbs_g = 50, t_fat_g = 10\<rparr>\<rparr>],
     overall_totals = Some \<lparr>t_calories = 1401, t_protein_g = 70.6, t_carbs_g = 170, t_fat_g = 40\<rparr>,
     shopping_list = None\<rparr>"

definition example_state :: planner_state where
  "example_state = \<lparr>form = example_form, loading = False, error = None,
     result = Some example_plan, activeDay = 1\<rparr>"

definition example_server :: "replace_request \<Rightarrow> replace_body fetch_result" where
  "example_server req = Response 200 (Some \<lparr>rb_status = Some ''ok'', rb_meal = Some example_new_meal,
     rb_replacement = None, rb_detail = None, rb_message = None\<rparr>)"

definition example_ingredient :: Ingredient where
  "example_ingredient = \<lparr>FoodID = 11, FoodDescription = ''Oats'', FoodGroupName = ''Cereals''\<rparr>"

definition example_api_meal :: "int \<Rightarrow> MealFromAPI" where
  "example_api_meal k = \<lparr>meal_number = k, recipe_name = ''Porridge'', api_target_calories = 600,
     api_ingredients = [example_ingredient],
     meal_totals = \<lparr>calories_kcal = 400.5, mt_protein_g = 20, mt_fat_g = 10, mt_carbs_g = 50\<rparr>\<rparr>"

definition example_response :: MealPlanResponseOK where
  "example_response = \<lparr>request = \<lparr>q_calories = 1800, q_meals_per_day = 3, q_days = 2,
       q_diet_type = vegetarian, q_goal = maintain, q_allergies = Some [''nuts''],
       q_exclude_ultra_processed = None, q_variety = None\<rparr>,
     api_plan =
       [\<lparr>api_day = 1, api_meals = [example_api_meal 1, example_api_meal 2],
          day_totals = \<lparr>calories_kcal = 801, mt_protein_g = 40, mt_fat_g = 20, mt_carbs_g = 100\<rparr>\<rparr>,
        \<lparr>api_day = 2, api_meals = [example_api_meal 1],
          day_totals = \<lparr>calories_kcal = 400.5, mt_protein_g = 20, mt_fat_g = 10, mt_carbs_g = 50\<rparr>\<rparr>],
     plan_totals = \<lparr>calories_kcal = 1201.5, mt_protein_g = 60, mt_fat_g = 30, mt_carbs_g = 150\<rparr>\<rparr>"

definition example_mealplan_state :: mealplan_state where
  "example_mealplan_state = \<lparr>data = Some example_response, mp_activeDay = 1, err = None\<rparr>"

definition example_replacement :: replacement where
  "example_replacement = \<lparr>rp_recipe_name = ''Tofu bowl'', rp_ingredients = [],
     rp_totals = \<lparr>calories_kcal = 610.26, mt_protein_g = 28, mt_fat_g = 15.5, mt_carbs_g = 0\<rparr>\<rparr>"

definition example_mealplan_server :: "replace_request \<Rightarrow> replace_body fetch_result" where
  "example_mealplan_server req = Response 200 (Some \<lparr>rb_status = Some ''ok'', rb_meal = None,
     rb_replacement = Some example_replacement, rb_detail = None, rb_message = None\<rparr>)"

definition example_failing_server :: "replace_request \<Rightarrow> replace_body fetch_result" where
  "example_failing_server req = Response 404 (Some \<lparr>rb_status = Some ''error'', rb_meal = None,
     rb_replacement = None, rb_detail = Some ''No alternative recipe'', rb_message = None\<rparr>)"

definition example_corpus :: "recipe list" where
  "example_corpus =
     [\<lparr>rc_id = 7, rc_name = ''Chicken rice'', rc_vegetarian = False, rc_ultra_processed = False,
        rc_ingredients = [''Rice'', ''chicken'']\<rparr>,
      \<lparr>rc_id = 9, rc_name = ''Tofu bowl'', rc_vegetarian = True, rc_ultra_processed = False,
        rc_ingredients = [''Tofu'', ''rice'']\<rparr>,
      \<lparr>rc_id = 12, rc_name = ''Walnut salad'', rc_vegetarian = True, rc_ultra_processed = False,
        rc_ingredients = [''Walnuts'', ''lettuce'']\<rparr>]"

definition example_score :: "recipe \<Rightarrow> rat" where
  "example_score r = \<bar>of_int (rc_id r) - 7\<bar>"

definition example_form_out_of_range :: form where
  "example_form_out_of_range = example_form\<lparr>form_meals_per_day := 9, form_days := 30\<rparr>"

definition example_validating_server :: "generate_request \<Rightarrow> generate_body fetch_result" where
  \<comment> \<open>a server that validates as the specification says, with 800..6000 for the calories,
      and answers a valid request with an empty plan\<close>
  "example_validating_server req =
     (case validate_request 800 6000 req of
        Inl (ValidationError fld) \<Rightarrow>
          Response 422 (Some \<lparr>gb_status = Some ''error'', gb_plan = None,
                               gb_message = Some fld, gb_detail = None\<rparr>)
      | Inl _ \<Rightarrow> Response 500 None
      | Inr r \<Rightarrow>
          Response 200 (Some \<lparr>gb_status = Some ''ok'',
                               gb_plan = Some \<lparr>days = Some [], overall_totals = None,
                                               shopping_list = None\<rparr>,
                               gb_message = None, gb_detail = None\<rparr>))"

definition example_generate_state :: planner_state where
  "example_generate_state = \<lparr>form = example_form_out_of_range, loading = False, error = None,
     result = None, activeDay = 1\<rparr>"

definition example_snack :: "int \<Rightarrow> meal" where
  "example_snack k = \<lparr>slot = None, meal_type = ''snack'', recipe_id = k,
     meal_name = ''Fruit'', calories = Some 150, protein_g = Some 2, carbs_g = Some 30,
     fat_g = Some 1, ingredients = Some [''apple''], target_calories = 150\<rparr>"

definition example_snack_state :: planner_state where
  \<comment> \<open>a day of four meals, two of them snacks without a \<open>slot\<close>\<close>
  "example_snack_state = \<lparr>form = example_form, loading = False, error = None,
     result = Some \<lparr>days = Some
         [\<lparr>day = 1,
            meals = Some [example_breakfast, example_snack 1, example_lunch, example_snack 2],
            totals = Some \<lparr>t_calories = 1300.5, t_protein_g = 54.3, t_carbs_g = 180,
                            t_fat_g = 32\<rparr>\<rparr>],
       overall_totals = Some \<lparr>t_calories = 1300.5, t_protein_g = 54.3, t_carbs_g = 180,
                                t_fat_g = 32\<rparr>,
       shopping_list = None\<rparr>,
     activeDay = 1\<rparr>"

definition example_snack_server :: "replace_request \<Rightarrow> replace_body fetch_result" where
  "example_snack_server req = Response 200 (Some \<lparr>rb_status = Some ''ok'',
     rb_meal = Some (example_snack 9), rb_replacement = None, rb_detail = None,
     rb_message = None\<rparr>)"

definition example_zero_day_state :: planner_state where
  \<comment> \<open>a plan whose only day has the number 0, as the page holds it after a generation,
      which sets the active day to 1\<close>
  "example_zero_day_state = \<lparr>form = example_form, loading = False, error = None,
     result = Some \<lparr>days = Some
         [\<lparr>day = 0, meals = Some [example_breakfast, example_lunch],
            totals = Some \<lparr>t_calories = 1000.5, t_protein_g = 50.3, t_carbs_g = 120,
                            t_fat_g = 30\<rparr>\<rparr>],
       overall_totals = Some \<lparr>t_calories = 1000.5, t_protein_g = 50.3, t_carbs_g = 120,
                                t_fat_g = 30\<rparr>,
       shopping_list = None\<rparr>,
     activeDay = 1\<rparr>"

section \<open>Properties\<close>

subsection \<open>Trimming and splitting\<close>

lemma trim_no_leading_space: "trim s \<noteq> [] \<Longrightarrow> \<not> is_space (hd (trim s))"
proof -
  assume ne: "trim s \<noteq> []"
  let ?d = "dropWhile is_space s"
  let ?r = "dropWhile is_space (rev ?d)"
  have r_ne: "?r \<noteq> []" using ne by (simp add: trim_def)
  have d_ne: "?d \<noteq> []"
  proof
    assume "?d = []"
    then have "?r = []" by (simp only: rev.simps dropWhile.simps)
    with r_ne show False by simp
  qed
  have "hd (trim s) = last ?r" using r_ne by (simp add: trim_def hd_rev)
  also have "\<dots> = last (rev ?d)"
  proof -
    obtain n where "?r = drop n (rev ?d)"
      by (metis dropWhile_eq_drop)
    with r_ne show ?thesis by (metis last_drop drop_eq_Nil not_le)
  qed
  also have "\<dots> = hd ?d" using d_ne by (simp add: last_rev)
  finally have "hd (trim s) = hd ?d" .
  moreover have "\<not> is_space (hd ?d)" using d_ne by (rule hd_dropWhile)
  ultimately show ?thesis by simp
qed

lemma trim_no_trailing_space: "trim s \<noteq> [] \<Longrightarrow> \<not> is_space (last (trim s))"
proof -
  assume ne: "trim s \<noteq> []"
  let ?r = "dropWhile is_space (rev (dropWhile is_space s))"
  have r_ne: "?r \<noteq> []" using ne by (simp add: trim_def)
  have "last (trim s) = hd ?r" using r_ne by (simp add: trim_def last_rev)
  moreover have "\<not> is_space (hd ?r)" using r_ne by (rule hd_dropWhile)
  ultimately show ?thesis by simp
qed

lemma parse_allergies_clean:
  "a \<in> set (parse_allergies text) \<Longrightarrow>
     a \<noteq> [] \<and> \<not> is_space (hd a) \<and> \<not> is_space (last a)"
  by (auto simp: parse_allergies_def trim_no_leading_space trim_no_trailing_space)

subsection \<open>Counting the ingredients\<close>

lemma foldl_nested: "foldl (\<lambda>a x. foldl f a (g x)) a xs = foldl f a (concat (map g xs))"
  by (induction xs arbitrary: a) simp_all

lemma concat_nested: "concat (map (\<lambda>d. concat (map g (f d))) ds) = concat (map g (concat (map f ds)))"
  by (induction ds) simp_all

lemma count_plan_flat:
  "count_plan ds = foldl count_ingredient [] (concat (map ingredients_of (concat (map meals_of ds))))"
  by (simp add: count_plan_def foldl_nested concat_nested)

lemma foldl_count_ingredient:
  "foldl count_ingredient ctr ings
     = foldl bump ctr (filter (\<lambda>k. k \<noteq> []) (map (\<lambda>ing. toLowerCase (trim ing)) ings))"
  by (induction ings arbitrary: ctr) (simp_all add: count_ingredient_def bump_def Let_def)

lemma map_of_keyed: "map_of (map (\<lambda>k. (k, f k)) ks) x = (if x \<in> set ks then Some (f x) else None)"
  by (induction ks) auto

lemma ctr_set_keyed_new:
  "k \<notin> set ks \<Longrightarrow> ctr_set k v (map (\<lambda>x. (x, f x)) ks) = map (\<lambda>x. (x, f x)) ks @ [(k, v)]"
  by (induction ks) auto

lemma ctr_set_keyed_old:
  "k \<in> set ks \<Longrightarrow> distinct ks \<Longrightarrow>
     ctr_set k v (map (\<lambda>x. (x, f x)) ks) = map (\<lambda>x. (x, if x = k then v else f x)) ks"
  by (induction ks) auto

lemma first_occurrences_snoc:
  "first_occurrences (xs @ [x]) = (if x \<in> set xs then first_occurrences xs else first_occurrences xs @ [x])"
  by (simp add: first_occurrences_def)

lemma set_first_occurrences [simp]: "set (first_occurrences xs) = set xs"
  by (simp add: first_occurrences_def)

lemma distinct_first_occurrences [simp]: "distinct (first_occurrences xs)"
  by (simp add: first_occurrences_def)

lemma foldl_bump:
  "foldl bump [] toks = map (\<lambda>k. (k, count_list toks k)) (first_occurrences toks)"
proof (induction toks rule: rev_induct)
  case Nil
  show ?case by (simp add: first_occurrences_def)
next
  case (snoc x toks)
  let ?K = "first_occurrences toks"
  have step: "foldl bump [] (toks @ [x]) = bump (map (\<lambda>k. (k, count_list toks k)) ?K) x"
    using snoc by simp
  show ?case
  proof (cases "x \<in> set toks")
    case True
    then have "bump (map (\<lambda>k. (k, count_list toks k)) ?K) x
                 = map (\<lambda>k. (k, if k = x then count_list toks x + 1 else count_list toks k)) ?K"
      by (simp add: bump_def map_of_keyed ctr_set_keyed_old)
    also have "\<dots> = map (\<lambda>k. (k, count_list (toks @ [x]) k)) ?K"
      by (rule map_cong) auto
    finally show ?thesis using True step by (simp add: first_occurrences_snoc)
  next
    case False
    then have "bump (map (\<lambda>k. (k, count_list toks k)) ?K) x
                 = map (\<lambda>k. (k, count_list toks k)) ?K @ [(x, 1)]"
      by (simp add: bump_def map_of_keyed ctr_set_keyed_new)
    also have "\<dots> = map (\<lambda>k. (k, count_list (toks @ [x]) k)) (?K @ [x])"
      using False by (auto simp: count_list_0_iff)
    finally show ?thesis using False step by (simp add: first_occurrences_snoc)
  qed
qed

lemma count_plan_eq:
  "count_plan ds = map (\<lambda>k. (k, count_list (plan_tokens ds) k)) (first_occurrences (plan_tokens ds))"
  by (simp add: count_plan_flat foldl_count_ingredient foldl_bump plan_tokens_def)

lemma set_plan_tokens:
  "set (plan_tokens ds) =
     {k. k \<noteq> [] \<and> (\<exists>d \<in> set ds. \<exists>m \<in> set (meals_of d). \<exists>ing \<in> set (ingredients_of m).
                       k = toLowerCase (trim ing))}"
  by (auto simp: plan_tokens_def)

lemma shopping_items_eq:
  "shopping_items ds =
     map (\<lambda>(i, c). \<lparr>ingredient = i, item_count = c\<rparr>)
       (sort_key (\<lambda>e. - int (snd e))
          (map (\<lambda>k. (k, count_list (plan_tokens ds) k)) (first_occurrences (plan_tokens ds))))"
  by (simp add: shopping_items_def count_plan_eq)

lemma length_shopping_items: "length (shopping_items ds) = card (set (plan_tokens ds))"
proof -
  have "length (shopping_items ds) = length (first_occurrences (plan_tokens ds))"
    by (simp add: shopping_items_eq)
  also have "\<dots> = card (set (first_occurrences (plan_tokens ds)))"
    by (rule distinct_card [symmetric]) simp
  finally show ?thesis by simp
qed

lemma ingredients_shopping_items:
  "map ingredient (shopping_items ds) = map fst (sort_key (\<lambda>e. - int (snd e)) (count_plan ds))"
  by (simp add: shopping_items_def case_prod_beta comp_def)

lemma set_ingredients_shopping_items:
  "set (map ingredient (shopping_items ds)) = set (plan_tokens ds)"
proof -
  have "set (map ingredient (shopping_items ds)) = fst ` set (count_plan ds)"
    by (simp add: ingredients_shopping_items)
  also have "\<dots> = set (first_occurrences (plan_tokens ds))"
    by (simp add: count_plan_eq image_image)
  finally show ?thesis by simp
qed

lemma distinct_ingredients_shopping_items: "distinct (map ingredient (shopping_items ds))"
proof -
  have "distinct (map fst (count_plan ds))"
    by (simp add: count_plan_eq comp_def)
  then have "distinct (map fst (sort_key (\<lambda>e. - int (snd e)) (count_plan ds)))"
    by (simp add: distinct_map)
  then show ?thesis by (simp add: ingredients_shopping_items)
qed

lemma counts_shopping_items:
  "it \<in> set (shopping_items ds) \<Longrightarrow> item_count it = count_list (plan_tokens ds) (ingredient it)"
proof -
  assume "it \<in> set (shopping_items ds)"
  then have "it \<in> (\<lambda>k. \<lparr>ingredient = k, item_count = count_list (plan_tokens ds) k\<rparr>)
                  ` set (first_occurrences (plan_tokens ds))"
    by (simp add: shopping_items_eq image_image)
  then obtain k where "it = \<lparr>ingredient = k, item_count = count_list (plan_tokens ds) k\<rparr>"
    by (rule imageE)
  then show ?thesis by simp
qed

lemma sorted_shopping_items:
  "sorted_wrt (\<lambda>a b. item_count b \<le> item_count a) (shopping_items ds)"
proof -
  let ?L = "sort_key (\<lambda>e. - int (snd e)) (count_plan ds)"
  have "sorted (map (\<lambda>e. - int (snd e)) ?L)" by (rule sorted_sort_key)
  then have "sorted_wrt (\<lambda>a b. snd b \<le> snd a) ?L"
    by (simp add: sorted_map)
  then show ?thesis
    by (simp add: shopping_items_def sorted_wrt_map case_prod_beta)
qed

lemma ties_shopping_items:
  "map ingredient (filter (\<lambda>it. item_count it = c) (shopping_items ds))
     = filter (\<lambda>k. count_list (plan_tokens ds) k = c) (first_occurrences (plan_tokens ds))"
proof -
  let ?E = "map (\<lambda>k. (k, count_list (plan_tokens ds) k)) (first_occurrences (plan_tokens ds))"
  let ?f = "\<lambda>e :: string \<times> nat. - int (snd e)"
  have "map ingredient (filter (\<lambda>it. item_count it = c) (shopping_items ds))
          = map fst (filter (\<lambda>e. snd e = c) (sort_key ?f ?E))"
    by (simp add: shopping_items_eq filter_map comp_def case_prod_beta)
  also have "filter (\<lambda>e. snd e = c) (sort_key ?f ?E) = filter (\<lambda>e. ?f e = - int c) (sort_key ?f ?E)"
    by (rule filter_cong) auto
  also have "\<dots> = filter (\<lambda>e. ?f e = - int c) ?E"
    by (rule sort_key_stable)
  also have "map fst \<dots> = filter (\<lambda>k. count_list (plan_tokens ds) k = c) (first_occurrences (plan_tokens ds))"
    by (simp add: filter_map comp_def)
  finally show ?thesis .
qed

subsection \<open>Summing the totals\<close>

lemma toFixed1_close: "close_to (toFixed1 x) x"
proof (cases "x < 0")
  case True
  define n where "n = \<lfloor>- x * 10 + 1 / 2\<rfloor>"
  have "of_int n \<le> - x * 10 + 1 / 2" and "- x * 10 + 1 / 2 < of_int n + 1"
    unfolding n_def by linarith+
  then have h: "\<bar>- (of_int n / 10) - x\<bar> \<le> 1 / 20"
    unfolding abs_le_iff by (simp add: field_simps)
  have eq: "toFixed1 x = - (of_int n / 10)"
    using True by (simp add: toFixed1_def n_def)
  show ?thesis unfolding close_to_def eq by (rule h)
next
  case False
  define n where "n = \<lfloor>x * 10 + 1 / 2\<rfloor>"
  have "of_int n \<le> x * 10 + 1 / 2" and "x * 10 + 1 / 2 < of_int n + 1"
    unfolding n_def by linarith+
  then have h: "\<bar>of_int n / 10 - x\<bar> \<le> 1 / 20"
    unfolding abs_le_iff by (simp add: field_simps)
  have eq: "toFixed1 x = of_int n / 10"
    using False by (simp add: toFixed1_def n_def)
  show ?thesis unfolding close_to_def eq by (rule h)
qed

lemma foldl_add_meal:
  "t_calories (foldl add_meal acc ms) = t_calories acc + sum_list (map (\<lambda>m. num (calories m)) ms)"
  "t_protein_g (foldl add_meal acc ms) = t_protein_g acc + sum_list (map (\<lambda>m. num (protein_g m)) ms)"
  "t_carbs_g (foldl add_meal acc ms) = t_carbs_g acc + sum_list (map (\<lambda>m. num (carbs_g m)) ms)"
  "t_fat_g (foldl add_meal acc ms) = t_fat_g acc + sum_list (map (\<lambda>m. num (fat_g m)) ms)"
  by (induction ms arbitrary: acc; simp add: add_meal_def)+

lemma foldl_add_day:
  "t_calories (foldl add_day acc ds) = t_calories acc + sum_list (map (day_total t_calories) ds)"
  "t_protein_g (foldl add_day acc ds) = t_protein_g acc + sum_list (map (day_total t_protein_g) ds)"
  "t_carbs_g (foldl add_day acc ds) = t_carbs_g acc + sum_list (map (day_total t_carbs_g) ds)"
  "t_fat_g (foldl add_day acc ds) = t_fat_g acc + sum_list (map (day_total t_fat_g) ds)"
  by (induction ds arbitrary: acc; simp add: add_day_def day_total_def)+

lemma those_Some: "those xs = Some ys \<Longrightarrow> xs = map Some ys"
  by (induction xs arbitrary: ys) (auto split: option.splits)

lemma those_map_Some: "those (map Some ys) = Some ys"
  by (induction ys) auto

lemma update_day_other: "day d \<noteq> aday \<Longrightarrow> update_day aday slt nm d = Some d"
  by (simp add: update_day_def)

lemma update_day_active:
  assumes "update_day aday slt nm d = Some d'" and "day d = aday"
  shows "\<exists>ums. map (\<lambda>mm. if slot_key mm = slt then nm else Some mm) (meals_of d) = map Some ums
             \<and> d' = d\<lparr>meals := Some ums, totals := Some (round_totals (foldl add_meal zero_totals ums))\<rparr>"
  using assms by (auto simp: update_day_def Let_def split: option.splits dest: those_Some)

lemma update_day_totals_ok:
  assumes "update_day aday slt nm d = Some d'" and "day d = aday"
  shows "day_totals_ok d'"
proof -
  from update_day_active [OF assms] obtain ums where
    d': "d' = d\<lparr>meals := Some ums, totals := Some (round_totals (foldl add_meal zero_totals ums))\<rparr>"
    by blast
  show ?thesis
    by (simp add: d' day_totals_ok_def meals_of_def round_totals_def foldl_add_meal
        zero_totals_def toFixed1_close)
qed

lemma update_day_day: "update_day aday slt nm d = Some d' \<Longrightarrow> day d' = day d"
  by (auto simp: update_day_def Let_def split: if_splits option.splits)

lemma replace_try_Inr:
  assumes "replace_try p aday slt fr = Inr next"
  shows "\<exists>code body newDays.
           fr = Response code (Some body) \<and> res_ok code \<and> rb_status body = Some ''ok''
         \<and> map (update_day aday slt (rb_meal body)) (days_of p) = map Some newDays
         \<and> days next = Some newDays
         \<and> overall_totals next = Some (round_totals (foldl add_day zero_totals newDays))
         \<and> shopping_list next = Some \<lparr>total_unique = length (shopping_items newDays),
                                           items = shopping_items newDays\<rparr>"
  using assms
  by (auto simp: replace_try_def Let_def split: fetch_result.splits option.splits if_splits
      dest: those_Some)

lemma replace_try_overall_ok:
  assumes "replace_try p aday slt fr = Inr next"
  shows "overall_totals_ok next"
proof -
  from replace_try_Inr [OF assms] obtain newDays where
    "days next = Some newDays"
    "overall_totals next = Some (round_totals (foldl add_day zero_totals newDays))"
    by blast
  then show ?thesis
    by (simp add: overall_totals_ok_def days_of_def round_totals_def foldl_add_day
        zero_totals_def toFixed1_close)
qed

lemma map_eq_nth:
  "map f xs = map Some ys \<Longrightarrow> length ys = length xs \<and> (\<forall>i < length xs. f (xs ! i) = Some (ys ! i))"
  by (metis length_map nth_map)

lemma replace_try_days:
  assumes "replace_try p aday slt fr = Inr next"
  shows "length (days_of next) = length (days_of p)
       \<and> (\<forall>i < length (days_of p). \<exists>nm. update_day aday slt nm (days_of p ! i) = Some (days_of next ! i))"
proof -
  from replace_try_Inr [OF assms] obtain body :: replace_body and newDays where
    m: "map (update_day aday slt (rb_meal body)) (days_of p) = map Some newDays" and
    n: "days next = Some newDays"
    by blast
  have d: "days_of next = newDays" by (simp add: n days_of_def)
  from map_eq_nth [OF m] show ?thesis unfolding d by blast
qed

lemma replace_try_day_totals:
  assumes "replace_try p aday slt fr = Inr next"
  shows "(\<forall>d \<in> set (days_of next). day d = aday \<longrightarrow> day_totals_ok d)
       \<and> ((\<forall>d \<in> set (days_of p). day d \<noteq> aday \<longrightarrow> day_totals_ok d)
            \<longrightarrow> (\<forall>d \<in> set (days_of next). day_totals_ok d))"
proof -
  from replace_try_days [OF assms] have
    len: "length (days_of next) = length (days_of p)" and
    upd: "\<And>i. i < length (days_of p) \<Longrightarrow>
            \<exists>nm. update_day aday slt nm (days_of p ! i) = Some (days_of next ! i)"
    by blast+
  have active: "day_totals_ok d'" if "d' \<in> set (days_of next)" "day d' = aday" for d'
  proof -
    from that(1) obtain i where i: "i < length (days_of next)" "d' = days_of next ! i"
      by (auto simp: in_set_conv_nth)
    with upd len obtain nm where u: "update_day aday slt nm (days_of p ! i) = Some d'" by auto
    with that(2) have "day (days_of p ! i) = aday" by (simp add: update_day_day [OF u, symmetric])
    with u show ?thesis by (rule update_day_totals_ok)
  qed
  have other: "day_totals_ok d'"
    if "d' \<in> set (days_of next)" "day d' \<noteq> aday"
       "\<forall>d \<in> set (days_of p). day d \<noteq> aday \<longrightarrow> day_totals_ok d" for d'
  proof -
    from that(1) obtain i where i: "i < length (days_of next)" "d' = days_of next ! i"
      by (auto simp: in_set_conv_nth)
    with upd len obtain nm where u: "update_day aday slt nm (days_of p ! i) = Some d'" by auto
    with that(2) have ne: "day (days_of p ! i) \<noteq> aday" by (simp add: update_day_day [OF u, symmetric])
    with u have "d' = days_of p ! i" by (simp add: update_day_other)
    moreover have "days_of p ! i \<in> set (days_of p)" using i len by simp
    ultimately show ?thesis using that(3) ne by auto
  qed
  show ?thesis using active other by blast
qed

subsection \<open>The handlers, case by case\<close>

lemma foldl_add_MacroTotals:
  "foldl (\<lambda>acc x. add_MacroTotals acc (f x)) acc xs
     = add_MacroTotals acc (sum_MacroTotals (map f xs))"
  by (induction xs arbitrary: acc) (simp_all add: add_MacroTotals_def sum_MacroTotals_def)

lemma add_zero_MacroTotals: "add_MacroTotals zero_MacroTotals t = t"
  by (simp add: add_MacroTotals_def zero_MacroTotals_def)

lemma replace_in_day_other: "api_day d \<noteq> aday \<Longrightarrow> replace_in_day aday n r d = d"
  by (simp add: replace_in_day_def)

lemma replace_in_day_api_day: "api_day (replace_in_day aday n r d) = api_day d"
  by (simp add: replace_in_day_def Let_def)

lemma replace_in_day_meals:
  "api_meals (replace_in_day aday n r d) =
     (if api_day d = aday
      then map (\<lambda>m. if meal_number m = n
                      then m\<lparr>recipe_name := rp_recipe_name r, api_ingredients := rp_ingredients r,
                             meal_totals := rp_totals r\<rparr>
                      else m) (api_meals d)
      else api_meals d)"
  by (simp add: replace_in_day_def Let_def)

lemma replace_in_day_totals_ok:
  "api_day d = aday \<Longrightarrow> api_day_totals_ok (replace_in_day aday n r d)"
  by (simp add: replace_in_day_def Let_def api_day_totals_ok_def foldl_add_MacroTotals
      add_zero_MacroTotals)

lemma apply_replacement_plan:
  "api_plan (apply_replacement prev aday n r) = map (replace_in_day aday n r) (api_plan prev)"
  by (simp add: apply_replacement_def Let_def)

lemma apply_replacement_request:
  "request (apply_replacement prev aday n r) = request prev"
  by (simp add: apply_replacement_def Let_def)

lemma apply_replacement_totals_ok: "api_plan_totals_ok (apply_replacement prev aday n r)"
  by (simp add: apply_replacement_def Let_def api_plan_totals_ok_def foldl_add_MacroTotals
      add_zero_MacroTotals)

lemma apply_replacement_day_totals:
  "(\<forall>d \<in> set (api_plan (apply_replacement prev aday n r)). api_day d = aday \<longrightarrow> api_day_totals_ok d)
   \<and> ((\<forall>d \<in> set (api_plan prev). api_day d \<noteq> aday \<longrightarrow> api_day_totals_ok d)
        \<longrightarrow> (\<forall>d \<in> set (api_plan (apply_replacement prev aday n r)). api_day_totals_ok d))"
proof -
  have a: "api_day_totals_ok (replace_in_day aday n r d)" if "api_day d = aday" for d
    using that by (rule replace_in_day_totals_ok)
  have b: "replace_in_day aday n r d = d" if "api_day d \<noteq> aday" for d
    using that by (rule replace_in_day_other)
  show ?thesis
    unfolding apply_replacement_plan
  proof (intro conjI ballI impI)
    fix d' assume "d' \<in> set (map (replace_in_day aday n r) (api_plan prev))" and e: "api_day d' = aday"
    then obtain d where d: "d' = replace_in_day aday n r d" by auto
    with e have "api_day d = aday" by (simp add: replace_in_day_api_day)
    then show "api_day_totals_ok d'" unfolding d by (rule a)
  next
    fix d'
    assume h: "\<forall>d \<in> set (api_plan prev). api_day d \<noteq> aday \<longrightarrow> api_day_totals_ok d"
      and "d' \<in> set (map (replace_in_day aday n r) (api_plan prev))"
    then obtain d where d: "d \<in> set (api_plan prev)" "d' = replace_in_day aday n r d" by auto
    show "api_day_totals_ok d'"
    proof (cases "api_day d = aday")
      case True
      then show ?thesis unfolding d by (rule a)
    next
      case False
      then show ?thesis using h d b by simp
    qed
  qed
qed

lemma handleReplace_cases:
  assumes "result st = Some p"
  shows "(\<exists>msg. handleReplace server st slt target ex = st\<lparr>error := Some msg\<rparr>
            \<and> replace_try p (activeDay st) slt
                 (server (replace_payload (form st) (activeDay st) slt target ex)) = Inl msg)
       \<or> (\<exists>next. handleReplace server st slt target ex = st\<lparr>error := None, result := Some next\<rparr>
            \<and> replace_try p (activeDay st) slt
                 (server (replace_payload (form st) (activeDay st) slt target ex)) = Inr next)"
  using assms by (simp add: handleReplace_def split: sum.splits)

lemma handleReplace_success:
  assumes "result st = Some p" and "error (handleReplace server st slt target ex) = None"
  shows "\<exists>next. result (handleReplace server st slt target ex) = Some next
            \<and> replace_try p (activeDay st) slt
                 (server (replace_payload (form st) (activeDay st) slt target ex)) = Inr next"
  using handleReplace_cases [OF assms(1), of server slt target ex] assms(2) by auto

lemma handleReplace_failure:
  assumes "result st = Some p" and "error (handleReplace server st slt target ex) \<noteq> None"
  shows "\<exists>msg. handleReplace server st slt target ex = st\<lparr>error := Some msg\<rparr>"
  using handleReplace_cases [OF assms(1), of server slt target ex] assms(2) by auto

lemma handleReplaceMeal_cases:
  assumes "data st = Some d"
  shows "(\<exists>msg. handleReplaceMeal server st n = st\<lparr>err := Some msg\<rparr>
            \<and> mealplan_replace_try (server (mealplan_payload d (mp_activeDay st) n)) = Inl msg)
       \<or> (\<exists>r. handleReplaceMeal server st n
                  = st\<lparr>err := None, data := Some (apply_replacement d (mp_activeDay st) n r)\<rparr>
            \<and> mealplan_replace_try (server (mealplan_payload d (mp_activeDay st) n)) = Inr r)"
  using assms by (simp add: handleReplaceMeal_def split: sum.splits)

subsection \<open>Totals after a replacement\<close>

lemma foldl_add_meal_zero: "foldl add_meal zero_totals ms = sum_meals ms"
  by (simp add: sum_meals_def foldl_add_meal zero_totals_def)

lemma foldl_add_day_zero: "foldl add_day zero_totals ds = sum_days ds"
  by (simp add: sum_days_def foldl_add_day zero_totals_def)

lemma update_day_totals_eq:
  assumes "update_day aday slt nm d = Some d'" and "day d = aday"
  shows "totals d' = Some (round_totals (sum_meals (meals_of d')))"
proof -
  from update_day_active [OF assms] obtain ums where
    "d' = d\<lparr>meals := Some ums, totals := Some (round_totals (foldl add_meal zero_totals ums))\<rparr>"
    by blast
  then show ?thesis by (simp add: meals_of_def foldl_add_meal_zero)
qed

lemma replace_try_overall_eq:
  assumes "replace_try p aday slt fr = Inr next"
  shows "overall_totals next = Some (round_totals (sum_days (days_of next)))"
proof -
  from replace_try_Inr [OF assms] obtain newDays where
    "days next = Some newDays"
    "overall_totals next = Some (round_totals (foldl add_day zero_totals newDays))"
    by blast
  then show ?thesis by (simp add: days_of_def foldl_add_day_zero)
qed

lemma replace_try_active_totals_eq:
  assumes "replace_try p aday slt fr = Inr next" and "d' \<in> set (days_of next)" and "day d' = aday"
  shows "totals d' = Some (round_totals (sum_meals (meals_of d')))"
proof -
  from replace_try_days [OF assms(1)] have
    len: "length (days_of next) = length (days_of p)" and
    upd: "\<And>i. i < length (days_of p) \<Longrightarrow>
            \<exists>nm. update_day aday slt nm (days_of p ! i) = Some (days_of next ! i)"
    by blast+
  from assms(2) obtain i where i: "i < length (days_of next)" "d' = days_of next ! i"
    by (auto simp: in_set_conv_nth)
  with upd len obtain nm where u: "update_day aday slt nm (days_of p ! i) = Some d'" by auto
  with assms(3) have "day (days_of p ! i) = aday" by (simp add: update_day_day [OF u, symmetric])
  with u show ?thesis by (rule update_day_totals_eq)
qed

lemma planner_totals:
  assumes "result st = Some p" and "error (handleReplace server st slt target ex) = None"
  shows "\<exists>next. result (handleReplace server st slt target ex) = Some next
        \<and> overall_totals next = Some (round_totals (sum_days (days_of next)))
        \<and> overall_totals_ok next
        \<and> (\<forall>d \<in> set (days_of next). day d = activeDay st \<longrightarrow>
              totals d = Some (round_totals (sum_meals (meals_of d))) \<and> day_totals_ok d)
        \<and> ((\<forall>d \<in> set (days_of p). day d \<noteq> activeDay st \<longrightarrow> day_totals_ok d) \<longrightarrow>
              (\<forall>d \<in> set (days_of next). day_totals_ok d))"
proof -
  from handleReplace_success [OF assms] obtain nxt where
    r: "result (handleReplace server st slt target ex) = Some nxt" and
    t: "replace_try p (activeDay st) slt
          (server (replace_payload (form st) (activeDay st) slt target ex)) = Inr nxt"
    by blast
  note replace_try_overall_eq [OF t] replace_try_overall_ok [OF t] replace_try_day_totals [OF t]
    replace_try_active_totals_eq [OF t]
  with r show ?thesis by blast
qed

lemma mealplan_totals:
  assumes "data mst = Some prev" and "err (handleReplaceMeal mserver mst n) = None"
  shows "\<exists>next. data (handleReplaceMeal mserver mst n) = Some next
        \<and> api_plan_totals_ok next
        \<and> (\<forall>d \<in> set (api_plan next). api_day d = mp_activeDay mst \<longrightarrow> api_day_totals_ok d)
        \<and> ((\<forall>d \<in> set (api_plan prev). api_day d \<noteq> mp_activeDay mst \<longrightarrow> api_day_totals_ok d) \<longrightarrow>
              (\<forall>d \<in> set (api_plan next). api_day_totals_ok d))"
proof -
  from handleReplaceMeal_cases [OF assms(1), of mserver n] assms(2) obtain r where
    "handleReplaceMeal mserver mst n
       = mst\<lparr>err := None, data := Some (apply_replacement prev (mp_activeDay mst) n r)\<rparr>"
    by auto
  then have "data (handleReplaceMeal mserver mst n)
               = Some (apply_replacement prev (mp_activeDay mst) n r)"
    by simp
  with apply_replacement_totals_ok [of prev "mp_activeDay mst" n r]
    apply_replacement_day_totals [of prev "mp_activeDay mst" n r]
  show ?thesis by blast
qed

text \<open>
  C1. After a single-meal replacement that succeeds, on either page: the overall totals are
  the sums of the day totals and the totals of every day of the targeted number are the
  sums over that day's meals, each of calories, protein, carbs and fat within 0.05 (the
  planner page rounds a sum to one decimal, the meal-plan page does not round). The
  totals are computed from the meal list and from the day list alone, not from the
  totals held before. A day of another number keeps the totals it had, so the totals of
  all days are sums if those of the other days were.
\<close>

theorem totals_are_sums_after_replace:
  "(result st = Some p \<and> error (handleReplace server st slt target ex) = None \<longrightarrow>
     (\<exists>next. result (handleReplace server st slt target ex) = Some next
        \<and> overall_totals next = Some (round_totals (sum_days (days_of next)))
        \<and> overall_totals_ok next
        \<and> (\<forall>d \<in> set (days_of next). day d = activeDay st \<longrightarrow>
              totals d = Some (round_totals (sum_meals (meals_of d))) \<and> day_totals_ok d)
        \<and> ((\<forall>d \<in> set (days_of p). day d \<noteq> activeDay st \<longrightarrow> day_totals_ok d) \<longrightarrow>
              (\<forall>d \<in> set (days_of next). day_totals_ok d))))
 \<and> (data mst = Some prev \<and> err (handleReplaceMeal mserver mst n) = None \<longrightarrow>
     (\<exists>next. data (handleReplaceMeal mserver mst n) = Some next
        \<and> api_plan_totals_ok next
        \<and> (\<forall>d \<in> set (api_plan next). api_day d = mp_activeDay mst \<longrightarrow> api_day_totals_ok d)
        \<and> ((\<forall>d \<in> set (api_plan prev). api_day d \<noteq> mp_activeDay mst \<longrightarrow> api_day_totals_ok d) \<longrightarrow>
              (\<forall>d \<in> set (api_plan next). api_day_totals_ok d))))"
  using planner_totals [of st p server slt target ex] mealplan_totals [of mst prev mserver n]
  by blast

theorem totals_are_sums_after_replace_witness:
  "(\<exists>nxt. result (handleReplace example_server example_state ''lunch'' 600 [7]) = Some nxt
       \<and> overall_totals_ok nxt \<and> list_all day_totals_ok (days_of nxt))
 \<and> (\<exists>nxt. data (handleReplaceMeal example_mealplan_server example_mealplan_state 2) = Some nxt
       \<and> api_plan_totals_ok nxt \<and> list_all api_day_totals_ok (api_plan nxt))"
proof -
  have a1: "result example_state = Some example_plan \<and>
            error (handleReplace example_server example_state ''lunch'' 600 [7]) = None"
    by code_simp
  have a2: "\<forall>d \<in> set (days_of example_plan). day d \<noteq> activeDay example_state \<longrightarrow> day_totals_ok d"
    by code_simp
  have b1: "data example_mealplan_state = Some example_response \<and>
            err (handleReplaceMeal example_mealplan_server example_mealplan_state 2) = None"
    by code_simp
  have b2: "\<forall>d \<in> set (api_plan example_response).
              api_day d \<noteq> mp_activeDay example_mealplan_state \<longrightarrow> api_day_totals_ok d"
    by code_simp
  from totals_are_sums_after_replace [of example_state example_plan example_server "''lunch''" 600 "[7]"
      example_mealplan_state example_response example_mealplan_server 2] a1 a2 b1 b2
  show ?thesis unfolding list_all_iff by blast
qed

subsection \<open>What a replacement leaves unchanged\<close>

lemma update_day_meals_nth:
  assumes "update_day aday slt nmo d = Some d'"
  shows "length (meals_of d') = length (meals_of d)
       \<and> (\<forall>j < length (meals_of d).
             Some (meals_of d' ! j) =
               (if day d = aday \<and> slot_key (meals_of d ! j) = slt then nmo
                else Some (meals_of d ! j)))"
proof (cases "day d = aday")
  case False
  with assms have "d' = d" by (simp add: update_day_other)
  with False show ?thesis by simp
next
  case True
  from update_day_active [OF assms True] obtain ums where
    m: "map (\<lambda>mm. if slot_key mm = slt then nmo else Some mm) (meals_of d) = map Some ums" and
    d': "d' = d\<lparr>meals := Some ums, totals := Some (round_totals (foldl add_meal zero_totals ums))\<rparr>"
    by blast
  have ms: "meals_of d' = ums" by (simp add: d' meals_of_def)
  from map_eq_nth [OF m] True show ?thesis unfolding ms by (simp add: eq_commute)
qed

lemma replace_try_days_uniform:
  assumes "replace_try p aday slt fr = Inr nxt"
  shows "\<exists>nmo. length (days_of nxt) = length (days_of p)
       \<and> (\<forall>i < length (days_of p). update_day aday slt nmo (days_of p ! i) = Some (days_of nxt ! i))"
proof -
  from replace_try_Inr [OF assms] obtain body :: replace_body and newDays where
    m: "map (update_day aday slt (rb_meal body)) (days_of p) = map Some newDays" and
    n: "days nxt = Some newDays"
    by blast
  have d: "days_of nxt = newDays" by (simp add: n days_of_def)
  from map_eq_nth [OF m] show ?thesis unfolding d by blast
qed

lemma frame_of_updates:
  assumes len: "length (days_of nxt) = length (days_of p)"
    and upd: "\<And>i. i < length (days_of p) \<Longrightarrow>
            update_day aday slt nmo (days_of p ! i) = Some (days_of nxt ! i)"
    and nm: "nmo = None \<or> nmo = Some nm"
  shows "planner_frame aday slt nm p nxt"
proof -
  have "day (days_of nxt ! i) = day (days_of p ! i)
      \<and> (day (days_of p ! i) \<noteq> aday \<longrightarrow> days_of nxt ! i = days_of p ! i)
      \<and> length (meals_of (days_of nxt ! i)) = length (meals_of (days_of p ! i))
      \<and> (\<forall>j < length (meals_of (days_of p ! i)).
            meals_of (days_of nxt ! i) ! j =
              (if day (days_of p ! i) = aday \<and> slot_key (meals_of (days_of p ! i) ! j) = slt
               then nm else meals_of (days_of p ! i) ! j))"
    if i: "i < length (days_of p)" for i
  proof -
    let ?d = "days_of p ! i" and ?d' = "days_of nxt ! i"
    have u: "update_day aday slt nmo ?d = Some ?d'" using i by (rule upd)
    have 1: "day ?d' = day ?d" using u by (rule update_day_day)
    have 2: "day ?d \<noteq> aday \<longrightarrow> ?d' = ?d" using u by (auto simp: update_day_other)
    from update_day_meals_nth [OF u] have
      3: "length (meals_of ?d') = length (meals_of ?d)" and
      4: "\<And>j. j < length (meals_of ?d) \<Longrightarrow>
            Some (meals_of ?d' ! j) =
              (if day ?d = aday \<and> slot_key (meals_of ?d ! j) = slt then nmo
               else Some (meals_of ?d ! j))"
      by blast+
    have 5: "meals_of ?d' ! j =
              (if day ?d = aday \<and> slot_key (meals_of ?d ! j) = slt then nm else meals_of ?d ! j)"
      if "j < length (meals_of ?d)" for j
      using 4 [OF that] nm by (auto split: if_splits)
    from 1 2 3 5 show ?thesis by blast
  qed
  with len show ?thesis unfolding planner_frame_def by blast
qed

lemma replace_try_frame:
  assumes "replace_try p aday slt fr = Inr nxt"
  shows "\<exists>nm. planner_frame aday slt nm p nxt"
proof -
  from replace_try_days_uniform [OF assms] obtain nmo where
    len: "length (days_of nxt) = length (days_of p)" and
    upd: "\<And>i. i < length (days_of p) \<Longrightarrow>
            update_day aday slt nmo (days_of p ! i) = Some (days_of nxt ! i)"
    by blast
  obtain nm where nm: "nmo = None \<or> nmo = Some nm" by (cases nmo) auto
  have "planner_frame aday slt nm p nxt"
  proof (rule frame_of_updates [OF len])
    show "update_day aday slt nmo (days_of p ! i) = Some (days_of nxt ! i)"
      if "i < length (days_of p)" for i
      using that by (rule upd)
    show "nmo = None \<or> nmo = Some nm" by (rule nm)
  qed
  then show ?thesis by blast
qed

lemma apply_replacement_frame:
  assumes "nxt = apply_replacement prev aday n r"
  shows "request nxt = request prev
       \<and> length (api_plan nxt) = length (api_plan prev)
       \<and> (\<forall>i < length (api_plan prev).
             api_day (api_plan nxt ! i) = api_day (api_plan prev ! i)
           \<and> (api_day (api_plan prev ! i) \<noteq> aday \<longrightarrow> api_plan nxt ! i = api_plan prev ! i)
           \<and> length (api_meals (api_plan nxt ! i)) = length (api_meals (api_plan prev ! i))
           \<and> (\<forall>j < length (api_meals (api_plan prev ! i)).
                 api_meals (api_plan nxt ! i) ! j =
                   (if api_day (api_plan prev ! i) = aday
                       \<and> meal_number (api_meals (api_plan prev ! i) ! j) = n
                    then (api_meals (api_plan prev ! i) ! j)
                           \<lparr>recipe_name := rp_recipe_name r, api_ingredients := rp_ingredients r,
                            meal_totals := rp_totals r\<rparr>
                    else api_meals (api_plan prev ! i) ! j)))"
  unfolding assms
  by (simp add: apply_replacement_request apply_replacement_plan replace_in_day_api_day
      replace_in_day_other replace_in_day_meals)

lemma planner_replace_frame:
  assumes "result st = Some p" and "st' = handleReplace server st slt target ex"
  shows "(error st' \<noteq> None \<longrightarrow> result st' = Some p)
       \<and> (error st' = None \<longrightarrow> (\<exists>nxt nm. result st' = Some nxt \<and> planner_frame (activeDay st) slt nm p nxt))"
proof -
  from handleReplace_cases [OF assms(1), of server slt target ex]
  show ?thesis
  proof
    assume "\<exists>msg. handleReplace server st slt target ex = st\<lparr>error := Some msg\<rparr>
              \<and> replace_try p (activeDay st) slt
                   (server (replace_payload (form st) (activeDay st) slt target ex)) = Inl msg"
    then show ?thesis using assms by auto
  next
    assume "\<exists>nxt. handleReplace server st slt target ex = st\<lparr>error := None, result := Some nxt\<rparr>
              \<and> replace_try p (activeDay st) slt
                   (server (replace_payload (form st) (activeDay st) slt target ex)) = Inr nxt"
    then obtain nxt where
      h: "handleReplace server st slt target ex = st\<lparr>error := None, result := Some nxt\<rparr>" and
      t: "replace_try p (activeDay st) slt
            (server (replace_payload (form st) (activeDay st) slt target ex)) = Inr nxt"
      by blast
    from replace_try_frame [OF t] obtain nm where "planner_frame (activeDay st) slt nm p nxt"
      by blast
    then show ?thesis using h assms(2) by auto
  qed
qed

lemma mealplan_replace_frame:
  assumes "data mst = Some prev" and "mst' = handleReplaceMeal mserver mst n"
  shows "(err mst' \<noteq> None \<longrightarrow> data mst' = Some prev)
       \<and> (err mst' = None \<longrightarrow>
            (\<exists>nxt r. data mst' = Some nxt \<and> mealplan_frame (mp_activeDay mst) n r prev nxt))"
proof -
  from handleReplaceMeal_cases [OF assms(1), of mserver n]
  show ?thesis
  proof
    assume "\<exists>msg. handleReplaceMeal mserver mst n = mst\<lparr>err := Some msg\<rparr>
              \<and> mealplan_replace_try (mserver (mealplan_payload prev (mp_activeDay mst) n)) = Inl msg"
    then show ?thesis using assms by auto
  next
    assume "\<exists>r. handleReplaceMeal mserver mst n
                  = mst\<lparr>err := None, data := Some (apply_replacement prev (mp_activeDay mst) n r)\<rparr>
              \<and> mealplan_replace_try (mserver (mealplan_payload prev (mp_activeDay mst) n)) = Inr r"
    then obtain r where
      h: "handleReplaceMeal mserver mst n
            = mst\<lparr>err := None, data := Some (apply_replacement prev (mp_activeDay mst) n r)\<rparr>"
      by blast
    have "mealplan_frame (mp_activeDay mst) n r prev (apply_replacement prev (mp_activeDay mst) n r)"
      unfolding mealplan_frame_def by (rule apply_replacement_frame) simp
    then show ?thesis using h assms(2) by auto
  qed
qed

lemma distinct_map_nth_eq:
  assumes "distinct (map f xs)" and "i < length xs" and "j < length xs" and "f (xs ! i) = f (xs ! j)"
  shows "i = j"
proof -
  from assms(2-4) have "map f xs ! i = map f xs ! j" by simp
  moreover from assms(2,3) have "i < length (map f xs)" "j < length (map f xs)" by simp_all
  ultimately show ?thesis using assms(1) nth_eq_iff_index_eq by blast
qed

lemma planner_frame_single:
  assumes f: "planner_frame aday slt nm p nxt"
    and dd: "distinct (map day (days_of p))"
    and i0: "i0 < length (days_of p)" and a: "day (days_of p ! i0) = aday"
    and dm: "distinct (map slot_key (meals_of (days_of p ! i0)))"
    and j0: "j0 < length (meals_of (days_of p ! i0))"
    and k: "slot_key (meals_of (days_of p ! i0) ! j0) = slt"
  shows "planner_single_change i0 j0 nm p nxt"
proof -
  have day_iff: "day (days_of p ! i) = aday \<longleftrightarrow> i = i0" if "i < length (days_of p)" for i
  proof
    assume "day (days_of p ! i) = aday"
    with a have "day (days_of p ! i) = day (days_of p ! i0)" by simp
    with dd that i0 show "i = i0" by (rule distinct_map_nth_eq)
  next
    assume "i = i0" with a show "day (days_of p ! i) = aday" by simp
  qed
  have key_iff: "slot_key (meals_of (days_of p ! i0) ! j) = slt \<longleftrightarrow> j = j0"
    if "j < length (meals_of (days_of p ! i0))" for j
  proof
    assume "slot_key (meals_of (days_of p ! i0) ! j) = slt"
    with k have "slot_key (meals_of (days_of p ! i0) ! j) = slot_key (meals_of (days_of p ! i0) ! j0)"
      by simp
    with dm that j0 show "j = j0" by (rule distinct_map_nth_eq)
  next
    assume "j = j0" with k show "slot_key (meals_of (days_of p ! i0) ! j) = slt" by simp
  qed
  from f have len: "length (days_of nxt) = length (days_of p)"
    and all: "\<And>i. i < length (days_of p) \<Longrightarrow>
            day (days_of nxt ! i) = day (days_of p ! i)
          \<and> (day (days_of p ! i) \<noteq> aday \<longrightarrow> days_of nxt ! i = days_of p ! i)
          \<and> length (meals_of (days_of nxt ! i)) = length (meals_of (days_of p ! i))
          \<and> (\<forall>j < length (meals_of (days_of p ! i)).
                meals_of (days_of nxt ! i) ! j =
                  (if day (days_of p ! i) = aday \<and> slot_key (meals_of (days_of p ! i) ! j) = slt
                   then nm else meals_of (days_of p ! i) ! j))"
    unfolding planner_frame_def by blast+
  have "day (days_of nxt ! i) = day (days_of p ! i)
          \<and> (i \<noteq> i0 \<longrightarrow> days_of nxt ! i = days_of p ! i)
          \<and> length (meals_of (days_of nxt ! i)) = length (meals_of (days_of p ! i))
          \<and> (\<forall>j < length (meals_of (days_of p ! i)).
                meals_of (days_of nxt ! i) ! j =
                  (if i = i0 \<and> j = j0 then nm else meals_of (days_of p ! i) ! j))"
    if i: "i < length (days_of p)" for i
  proof (cases "i = i0")
    case True
    from all [OF i] True a key_iff show ?thesis by simp
  next
    case False
    with day_iff [OF i] have "day (days_of p ! i) \<noteq> aday" by simp
    with all [OF i] False show ?thesis by simp
  qed
  with len show ?thesis unfolding planner_single_change_def by blast
qed

lemma mealplan_frame_single:
  assumes f: "mealplan_frame aday n r prev nxt"
    and dd: "distinct (map api_day (api_plan prev))"
    and i0: "i0 < length (api_plan prev)" and a: "api_day (api_plan prev ! i0) = aday"
    and dm: "distinct (map meal_number (api_meals (api_plan prev ! i0)))"
    and j0: "j0 < length (api_meals (api_plan prev ! i0))"
    and k: "meal_number (api_meals (api_plan prev ! i0) ! j0) = n"
  shows "mealplan_single_change i0 j0 r prev nxt"
proof -
  have day_iff: "api_day (api_plan prev ! i) = aday \<longleftrightarrow> i = i0" if "i < length (api_plan prev)" for i
  proof
    assume "api_day (api_plan prev ! i) = aday"
    with a have "api_day (api_plan prev ! i) = api_day (api_plan prev ! i0)" by simp
    with dd that i0 show "i = i0" by (rule distinct_map_nth_eq)
  next
    assume "i = i0" with a show "api_day (api_plan prev ! i) = aday" by simp
  qed
  have key_iff: "meal_number (api_meals (api_plan prev ! i0) ! j) = n \<longleftrightarrow> j = j0"
    if "j < length (api_meals (api_plan prev ! i0))" for j
  proof
    assume "meal_number (api_meals (api_plan prev ! i0) ! j) = n"
    with k have "meal_number (api_meals (api_plan prev ! i0) ! j)
                   = meal_number (api_meals (api_plan prev ! i0) ! j0)"
      by simp
    with dm that j0 show "j = j0" by (rule distinct_map_nth_eq)
  next
    assume "j = j0" with k show "meal_number (api_meals (api_plan prev ! i0) ! j) = n" by simp
  qed
  from f have req: "request nxt = request prev"
    and len: "length (api_plan nxt) = length (api_plan prev)"
    and all: "\<And>i. i < length (api_plan prev) \<Longrightarrow>
            api_day (api_plan nxt ! i) = api_day (api_plan prev ! i)
          \<and> (api_day (api_plan prev ! i) \<noteq> aday \<longrightarrow> api_plan nxt ! i = api_plan prev ! i)
          \<and> length (api_meals (api_plan nxt ! i)) = length (api_meals (api_plan prev ! i))
          \<and> (\<forall>j < length (api_meals (api_plan prev ! i)).
                api_meals (api_plan nxt ! i) ! j =
                  (if api_day (api_plan prev ! i) = aday
                      \<and> meal_number (api_meals (api_plan prev ! i) ! j) = n
                   then (api_meals (api_plan prev ! i) ! j)
                          \<lparr>recipe_name := rp_recipe_name r, api_ingredients := rp_ingredients r,
                           meal_totals := rp_totals r\<rparr>
                   else api_meals (api_plan prev ! i) ! j))"
    unfolding mealplan_frame_def by blast+
  have "api_day (api_plan nxt ! i) = api_day (api_plan prev ! i)
          \<and> (i \<noteq> i0 \<longrightarrow> api_plan nxt ! i = api_plan prev ! i)
          \<and> length (api_meals (api_plan nxt ! i)) = length (api_meals (api_plan prev ! i))
          \<and> (\<forall>j < length (api_meals (api_plan prev ! i)).
                api_meals (api_plan nxt ! i) ! j =
                  (if i = i0 \<and> j = j0
                   then (api_meals (api_plan prev ! i) ! j)
                          \<lparr>recipe_name := rp_recipe_name r, api_ingredients := rp_ingredients r,
                           meal_totals := rp_totals r\<rparr>
                   else api_meals (api_plan prev ! i) ! j))"
    if i: "i < length (api_plan prev)" for i
  proof (cases "i = i0")
    case True
    from all [OF i] True a key_iff show ?thesis by simp
  next
    case False
    with day_iff [OF i] have "api_day (api_plan prev ! i) \<noteq> aday" by simp
    with all [OF i] False show ?thesis by simp
  qed
  with req len show ?thesis unfolding mealplan_single_change_def by blast
qed

text \<open>
  C3. Replacing a meal changes the meals it is keyed to and nothing else. On the planner
  page every meal of a day of the active number whose slot key (its \<open>slot\<close>, else its
  \<open>meal_type\<close>) is the targeted slot becomes the new meal; the days keep their order and
  number, a day of another number is unchanged and a meal of another slot key is
  unchanged. So exactly the targeted meal changes when the day numbers of the plan are
  distinct and the slot keys of the targeted day are distinct; several meals change when
  they share the key, and none when no day has the active number. The same holds on the
  meal-plan page with the meal number in place of the slot key. When the replace call
  fails, the plan is unchanged.
\<close>

theorem replace_changes_the_meals_of_its_key:
  assumes "result st = Some p" and "st' = handleReplace server st slt target ex"
    and "data mst = Some prev" and "mst' = handleReplaceMeal mserver mst n"
  shows "(error st' \<noteq> None \<longrightarrow> result st' = Some p)
       \<and> (error st' = None \<longrightarrow>
            (\<exists>nxt nm. result st' = Some nxt \<and> planner_frame (activeDay st) slt nm p nxt
               \<and> (\<forall>i0 j0. distinct (map day (days_of p)) \<and> i0 < length (days_of p)
                      \<and> day (days_of p ! i0) = activeDay st
                      \<and> distinct (map slot_key (meals_of (days_of p ! i0)))
                      \<and> j0 < length (meals_of (days_of p ! i0))
                      \<and> slot_key (meals_of (days_of p ! i0) ! j0) = slt
                    \<longrightarrow> planner_single_change i0 j0 nm p nxt)))
       \<and> (err mst' \<noteq> None \<longrightarrow> data mst' = Some prev)
       \<and> (err mst' = None \<longrightarrow>
            (\<exists>nxt r. data mst' = Some nxt \<and> mealplan_frame (mp_activeDay mst) n r prev nxt
               \<and> (\<forall>i0 j0. distinct (map api_day (api_plan prev)) \<and> i0 < length (api_plan prev)
                      \<and> api_day (api_plan prev ! i0) = mp_activeDay mst
                      \<and> distinct (map meal_number (api_meals (api_plan prev ! i0)))
                      \<and> j0 < length (api_meals (api_plan prev ! i0))
                      \<and> meal_number (api_meals (api_plan prev ! i0) ! j0) = n
                    \<longrightarrow> mealplan_single_change i0 j0 r prev nxt)))"
proof -
  note a = planner_replace_frame [OF assms(1,2)]
  note b = mealplan_replace_frame [OF assms(3,4)]
  have 1: "error st' \<noteq> None \<longrightarrow> result st' = Some p" using a by (rule conjunct1)
  have 3: "err mst' \<noteq> None \<longrightarrow> data mst' = Some prev" using b by (rule conjunct1)
  have 2: "error st' = None \<longrightarrow>
            (\<exists>nxt nm. result st' = Some nxt \<and> planner_frame (activeDay st) slt nm p nxt
               \<and> (\<forall>i0 j0. distinct (map day (days_of p)) \<and> i0 < length (days_of p)
                      \<and> day (days_of p ! i0) = activeDay st
                      \<and> distinct (map slot_key (meals_of (days_of p ! i0)))
                      \<and> j0 < length (meals_of (days_of p ! i0))
                      \<and> slot_key (meals_of (days_of p ! i0) ! j0) = slt
                    \<longrightarrow> planner_single_change i0 j0 nm p nxt))"
  proof
    assume "error st' = None"
    with a obtain nxt nm where
      r: "result st' = Some nxt" and f: "planner_frame (activeDay st) slt nm p nxt"
      by blast
    have "planner_single_change i0 j0 nm p nxt"
      if "distinct (map day (days_of p)) \<and> i0 < length (days_of p)
                      \<and> day (days_of p ! i0) = activeDay st
                      \<and> distinct (map slot_key (meals_of (days_of p ! i0)))
                      \<and> j0 < length (meals_of (days_of p ! i0))
                      \<and> slot_key (meals_of (days_of p ! i0) ! j0) = slt" for i0 j0
      using f that by (intro planner_frame_single [of "activeDay st" slt nm p nxt i0 j0]) simp_all
    with r f show "\<exists>nxt nm. result st' = Some nxt \<and> planner_frame (activeDay st) slt nm p nxt
               \<and> (\<forall>i0 j0. distinct (map day (days_of p)) \<and> i0 < length (days_of p)
                      \<and> day (days_of p ! i0) = activeDay st
                      \<and> distinct (map slot_key (meals_of (days_of p ! i0)))
                      \<and> j0 < length (meals_of (days_of p ! i0))
                      \<and> slot_key (meals_of (days_of p ! i0) ! j0) = slt
                    \<longrightarrow> planner_single_change i0 j0 nm p nxt)"
      by blast
  qed
  have 4: "err mst' = None \<longrightarrow>
            (\<exists>nxt r. data mst' = Some nxt \<and> mealplan_frame (mp_activeDay mst) n r prev nxt
               \<and> (\<forall>i0 j0. distinct (map api_day (api_plan prev)) \<and> i0 < length (api_plan prev)
                      \<and> api_day (api_plan prev ! i0) = mp_activeDay mst
                      \<and> distinct (map meal_number (api_meals (api_plan prev ! i0)))
                      \<and> j0 < length (api_meals (api_plan prev ! i0))
                      \<and> meal_number (api_meals (api_plan prev ! i0) ! j0) = n
                    \<longrightarrow> mealplan_single_change i0 j0 r prev nxt))"
  proof
    assume "err mst' = None"
    with b obtain nxt r where
      d: "data mst' = Some nxt" and f: "mealplan_frame (mp_activeDay mst) n r prev nxt"
      by blast
    have "mealplan_single_change i0 j0 r prev nxt"
      if "distinct (map api_day (api_plan prev)) \<and> i0 < length (api_plan prev)
                      \<and> api_day (api_plan prev ! i0) = mp_activeDay mst
                      \<and> distinct (map meal_number (api_meals (api_plan prev ! i0)))
                      \<and> j0 < length (api_meals (api_plan prev ! i0))
                      \<and> meal_number (api_meals (api_plan prev ! i0) ! j0) = n" for i0 j0
      using f that
      by (intro mealplan_frame_single [of "mp_activeDay mst" n r prev nxt i0 j0]) simp_all
    with d f show "\<exists>nxt r. data mst' = Some nxt \<and> mealplan_frame (mp_activeDay mst) n r prev nxt
               \<and> (\<forall>i0 j0. distinct (map api_day (api_plan prev)) \<and> i0 < length (api_plan prev)
                      \<and> api_day (api_plan prev ! i0) = mp_activeDay mst
                      \<and> distinct (map meal_number (api_meals (api_plan prev ! i0)))
                      \<and> j0 < length (api_meals (api_plan prev ! i0))
                      \<and> meal_number (api_meals (api_plan prev ! i0) ! j0) = n
                    \<longrightarrow> mealplan_single_change i0 j0 r prev nxt)"
      by blast
  qed
  from 1 2 3 4 show ?thesis by (intro conjI)
qed

theorem replace_changes_the_meals_of_its_key_witness:
  "(\<exists>nxt nm. result (handleReplace example_server example_state ''lunch'' 600 [7]) = Some nxt
       \<and> planner_single_change 0 1 nm example_plan nxt
       \<and> days_of nxt ! 1 = days_of example_plan ! 1
       \<and> meals_of (days_of nxt ! 0) ! 0 = meals_of (days_of example_plan ! 0) ! 0
       \<and> meals_of (days_of nxt ! 0) ! 1 = nm)
 \<and> result (handleReplace example_failing_server example_state ''lunch'' 600 [7]) = Some example_plan
 \<and> (\<exists>nxt r. data (handleReplaceMeal example_mealplan_server example_mealplan_state 2) = Some nxt
       \<and> mealplan_single_change 0 1 r example_response nxt
       \<and> api_plan nxt ! 1 = api_plan example_response ! 1
       \<and> api_meals (api_plan nxt ! 0) ! 0 = api_meals (api_plan example_response ! 0) ! 0)
 \<and> data (handleReplaceMeal example_failing_server example_mealplan_state 2) = Some example_response"
proof -
  have s1: "result example_state = Some example_plan"
    and s2: "data example_mealplan_state = Some example_response"
    by code_simp+
  have ok: "error (handleReplace example_server example_state ''lunch'' 600 [7]) = None"
    "err (handleReplaceMeal example_mealplan_server example_mealplan_state 2) = None"
    by code_simp+
  have ko: "error (handleReplace example_failing_server example_state ''lunch'' 600 [7]) \<noteq> None"
    "err (handleReplaceMeal example_failing_server example_mealplan_state 2) \<noteq> None"
    by code_simp+
  have p: "distinct (map day (days_of example_plan)) \<and> 0 < length (days_of example_plan)
      \<and> day (days_of example_plan ! 0) = activeDay example_state
      \<and> distinct (map slot_key (meals_of (days_of example_plan ! 0)))
      \<and> 1 < length (meals_of (days_of example_plan ! 0))
      \<and> slot_key (meals_of (days_of example_plan ! 0) ! 1) = ''lunch''"
    by code_simp
  have q: "distinct (map api_day (api_plan example_response)) \<and> 0 < length (api_plan example_response)
      \<and> api_day (api_plan example_response ! 0) = mp_activeDay example_mealplan_state
      \<and> distinct (map meal_number (api_meals (api_plan example_response ! 0)))
      \<and> 1 < length (api_meals (api_plan example_response ! 0))
      \<and> meal_number (api_meals (api_plan example_response ! 0) ! 1) = 2"
    by code_simp
  have lp: "length (days_of example_plan) = 2" "length (meals_of (days_of example_plan ! 0)) = 2"
    and lq: "length (api_plan example_response) = 2"
      "length (api_meals (api_plan example_response ! 0)) = 2"
    by code_simp+
  note good = replace_changes_the_meals_of_its_key [OF s1 refl s2 refl,
      of example_server "''lunch''" 600 "[7]" example_mealplan_server 2]
  note bad = replace_changes_the_meals_of_its_key [OF s1 refl s2 refl,
      of example_failing_server "''lunch''" 600 "[7]" example_failing_server 2]
  from good ok p obtain nxt nm where
    r: "result (handleReplace example_server example_state ''lunch'' 600 [7]) = Some nxt" and
    f: "planner_single_change 0 1 nm example_plan nxt"
    by blast
  from good ok q obtain mnxt r' where
    mr: "data (handleReplaceMeal example_mealplan_server example_mealplan_state 2) = Some mnxt" and
    mf: "mealplan_single_change 0 1 r' example_response mnxt"
    by blast
  have f1: "days_of nxt ! 1 = days_of example_plan ! 1"
    using f lp unfolding planner_single_change_def by simp
  have f2: "meals_of (days_of nxt ! 0) ! 0 = meals_of (days_of example_plan ! 0) ! 0"
    using f lp unfolding planner_single_change_def by simp
  have f3: "meals_of (days_of nxt ! 0) ! 1 = nm"
    using f lp unfolding planner_single_change_def by simp
  have g1: "api_plan mnxt ! 1 = api_plan example_response ! 1"
    using mf lq unfolding mealplan_single_change_def by simp
  have g2: "api_meals (api_plan mnxt ! 0) ! 0 = api_meals (api_plan example_response ! 0) ! 0"
    using mf lq unfolding mealplan_single_change_def by simp
  from bad ko have b1:
    "result (handleReplace example_failing_server example_state ''lunch'' 600 [7]) = Some example_plan"
    and b2: "data (handleReplaceMeal example_failing_server example_mealplan_state 2) = Some example_response"
    by blast+
  from r f f1 f2 f3 mr mf g1 g2 b1 b2 show ?thesis by blast
qed

theorem replace_changes_both_snacks_or_no_meal:
  "plan_recipe_ids example_snack_state = [[3, 1, 7, 2]]
   \<and> error (MealCard_onReplace example_snack_server example_snack_state (example_snack 1)) = None
   \<and> plan_recipe_ids (MealCard_onReplace example_snack_server example_snack_state (example_snack 1))
        = [[3, 9, 7, 9]]
   \<and> plan_recipe_ids example_zero_day_state = [[3, 7]]
   \<and> error (MealCard_onReplace example_server example_zero_day_state example_lunch) = None
   \<and> plan_recipe_ids (MealCard_onReplace example_server example_zero_day_state example_lunch)
        = [[3, 7]]"
  by code_simp

subsection \<open>The shopping list\<close>

lemma replace_try_shopping:
  assumes "replace_try p aday slt fr = Inr nxt"
  shows "shopping_list nxt = Some \<lparr>total_unique = length (shopping_items (days_of nxt)),
                                    items = shopping_items (days_of nxt)\<rparr>"
proof -
  from replace_try_Inr [OF assms] obtain newDays where
    "days nxt = Some newDays"
    "shopping_list nxt = Some \<lparr>total_unique = length (shopping_items newDays),
                                items = shopping_items newDays\<rparr>"
    by blast
  then show ?thesis by (simp add: days_of_def)
qed

text \<open>
  C4. After a replacement that succeeds, the shopping list of the planner page holds one
  item for every distinct non-empty trimmed lower-cased ingredient string of the plan,
  with the number of its occurrences across the whole plan, sorted by descending count.
  Items of equal count are in the order in which the ingredients first occur in the
  plan (the sort compares the counts only, and is stable); they are not put in
  alphabetical order.
\<close>

theorem shopping_list_by_count_then_first_occurrence:
  assumes "result st = Some p" and "error (handleReplace server st slt target ex) = None"
  shows "\<exists>nxt sl. result (handleReplace server st slt target ex) = Some nxt
       \<and> shopping_list nxt = Some sl
       \<and> distinct (map ingredient (items sl))
       \<and> set (map ingredient (items sl)) = set (plan_tokens (days_of nxt))
       \<and> (\<forall>it \<in> set (items sl).
             item_count it = count_list (plan_tokens (days_of nxt)) (ingredient it))
       \<and> sorted_wrt (\<lambda>a b. item_count b \<le> item_count a) (items sl)
       \<and> (\<forall>c. map ingredient (filter (\<lambda>it. item_count it = c) (items sl))
                = filter (\<lambda>k. count_list (plan_tokens (days_of nxt)) k = c)
                    (first_occurrences (plan_tokens (days_of nxt))))"
proof -
  from handleReplace_success [OF assms] obtain nxt where
    r: "result (handleReplace server st slt target ex) = Some nxt" and
    t: "replace_try p (activeDay st) slt
          (server (replace_payload (form st) (activeDay st) slt target ex)) = Inr nxt"
    by blast
  let ?sl = "\<lparr>total_unique = length (shopping_items (days_of nxt)),
              items = shopping_items (days_of nxt)\<rparr>"
  have s: "shopping_list nxt = Some ?sl" using t by (rule replace_try_shopping)
  have i: "items ?sl = shopping_items (days_of nxt)" by simp
  have "distinct (map ingredient (items ?sl))"
    unfolding i by (rule distinct_ingredients_shopping_items)
  moreover have "set (map ingredient (items ?sl)) = set (plan_tokens (days_of nxt))"
    unfolding i by (rule set_ingredients_shopping_items)
  moreover have "\<forall>it \<in> set (items ?sl).
                   item_count it = count_list (plan_tokens (days_of nxt)) (ingredient it)"
    unfolding i using counts_shopping_items by blast
  moreover have "sorted_wrt (\<lambda>a b. item_count b \<le> item_count a) (items ?sl)"
    unfolding i by (rule sorted_shopping_items)
  moreover have "\<forall>c. map ingredient (filter (\<lambda>it. item_count it = c) (items ?sl))
                = filter (\<lambda>k. count_list (plan_tokens (days_of nxt)) k = c)
                    (first_occurrences (plan_tokens (days_of nxt)))"
    unfolding i using ties_shopping_items by blast
  ultimately show ?thesis using r s by blast
qed

theorem shopping_list_by_count_then_first_occurrence_witness:
  "\<exists>nxt sl. result (handleReplace example_server example_state ''lunch'' 600 [7]) = Some nxt
       \<and> shopping_list nxt = Some sl
       \<and> distinct (map ingredient (items sl))
       \<and> sorted_wrt (\<lambda>a b. item_count b \<le> item_count a) (items sl)
       \<and> map ingredient (filter (\<lambda>it. item_count it = 1) (items sl))
            = filter (\<lambda>k. count_list (plan_tokens (days_of nxt)) k = 1)
                (first_occurrences (plan_tokens (days_of nxt)))"
proof -
  have "result example_state = Some example_plan"
    and "error (handleReplace example_server example_state ''lunch'' 600 [7]) = None"
    by code_simp+
  from shopping_list_by_count_then_first_occurrence [OF this] show ?thesis by blast
qed

theorem shopping_list_ties_not_alphabetical:
  "listed_items (handleReplace example_server example_state ''lunch'' 600 [7])
     = [\<lparr>ingredient = ''oats'', item_count = 2\<rparr>, \<lparr>ingredient = ''milk'', item_count = 2\<rparr>,
        \<lparr>ingredient = ''tofu'', item_count = 1\<rparr>, \<lparr>ingredient = ''rice'', item_count = 1\<rparr>]
   \<and> \<not> count_desc_then_alpha (listed_items (handleReplace example_server example_state ''lunch'' 600 [7]))"
  by code_simp

text \<open>
  C5. After a replacement that succeeds, \<open>total_unique\<close> of the shopping list is the number
  of distinct non-empty lower-cased trimmed ingredient strings over all meals of all days
  of the plan.
\<close>

theorem total_unique_counts_distinct_tokens:
  assumes "result st = Some p" and "error (handleReplace server st slt target ex) = None"
  shows "\<exists>nxt sl. result (handleReplace server st slt target ex) = Some nxt
       \<and> shopping_list nxt = Some sl
       \<and> total_unique sl = length (items sl)
       \<and> total_unique sl =
           card {k. k \<noteq> [] \<and> (\<exists>d \<in> set (days_of nxt). \<exists>m \<in> set (meals_of d).
                                 \<exists>ing \<in> set (ingredients_of m). k = toLowerCase (trim ing))}"
proof -
  from handleReplace_success [OF assms] obtain nxt where
    r: "result (handleReplace server st slt target ex) = Some nxt" and
    t: "replace_try p (activeDay st) slt
          (server (replace_payload (form st) (activeDay st) slt target ex)) = Inr nxt"
    by blast
  let ?sl = "\<lparr>total_unique = length (shopping_items (days_of nxt)),
              items = shopping_items (days_of nxt)\<rparr>"
  have s: "shopping_list nxt = Some ?sl" using t by (rule replace_try_shopping)
  have "total_unique ?sl = card (set (plan_tokens (days_of nxt)))"
    by (simp add: length_shopping_items)
  then have "total_unique ?sl =
           card {k. k \<noteq> [] \<and> (\<exists>d \<in> set (days_of nxt). \<exists>m \<in> set (meals_of d).
                                 \<exists>ing \<in> set (ingredients_of m). k = toLowerCase (trim ing))}"
    by (simp only: set_plan_tokens)
  moreover have "total_unique ?sl = length (items ?sl)" by simp
  ultimately show ?thesis using r s by blast
qed

theorem total_unique_counts_distinct_tokens_witness:
  "\<exists>nxt sl. result (handleReplace example_server example_state ''lunch'' 600 [7]) = Some nxt
       \<and> shopping_list nxt = Some sl
       \<and> total_unique sl = 4
       \<and> total_unique sl =
           card {k. k \<noteq> [] \<and> (\<exists>d \<in> set (days_of nxt). \<exists>m \<in> set (meals_of d).
                                 \<exists>ing \<in> set (ingredients_of m). k = toLowerCase (trim ing))}"
proof -
  have "result example_state = Some example_plan"
    and "error (handleReplace example_server example_state ''lunch'' 600 [7]) = None"
    by code_simp+
  from total_unique_counts_distinct_tokens [OF this] obtain nxt sl where
    r: "result (handleReplace example_server example_state ''lunch'' 600 [7]) = Some nxt" and
    s: "shopping_list nxt = Some sl" and
    l: "total_unique sl = length (items sl)" and
    c: "total_unique sl =
           card {k. k \<noteq> [] \<and> (\<exists>d \<in> set (days_of nxt). \<exists>m \<in> set (meals_of d).
                                 \<exists>ing \<in> set (ingredients_of m). k = toLowerCase (trim ing))}"
    by blast
  have "length (listed_items (handleReplace example_server example_state ''lunch'' 600 [7])) = 4"
    by code_simp
  with r s have "length (items sl) = 4" by (simp add: listed_items_def)
  with r s l c show ?thesis by auto
qed

subsection \<open>The exclusion of the current recipe\<close>

lemma select_best_mem: "select_best score rs = Some r \<Longrightarrow> r \<in> set rs"
  by (induction rs arbitrary: r) (auto split: option.splits if_splits)

lemma replace_engine_excludes:
  assumes "replace_engine score corpus req = Inr r" and "r_exclude_recipe_ids req = Some ids"
  shows "rc_id r \<notin> set ids"
proof -
  from assms(1) have "select_best score (filter (filter_accept req) corpus) = Some r"
    by (simp add: replace_engine_def split: option.splits)
  then have "r \<in> set (filter (filter_accept req) corpus)" by (rule select_best_mem)
  then have "filter_accept req r" by simp
  with assms(2) show ?thesis by (auto simp: filter_accept_def split: if_splits)
qed

lemma handleReplaceMeal_no_plan: "data st = None \<Longrightarrow> handleReplaceMeal server st n = st"
  by (simp add: handleReplaceMeal_def)

lemma reachable_has_no_plan: "reachable s \<Longrightarrow> data (page s) = None \<and> stored s = None"
proof (induction rule: reachable.induct)
  case start
  show ?case by (simp add: initial_page_def)
next
  case (opened s)
  then show ?case by (simp add: open_page_def initial_page_def)
next
  case (picked s k)
  then show ?case by (simp add: pick_day_def)
next
  case (replaced s server n)
  then show ?case by (simp add: replace_meal_def Let_def handleReplaceMeal_no_plan)
next
  case (cleared s)
  then show ?case by (simp add: new_plan_def)
qed

lemma reachable_posts_nothing:
  assumes "reachable s"
  shows "handleReplaceMeal_request (page s) n = None \<and> handleReplaceMeal server (page s) n = page s"
proof -
  from reachable_has_no_plan [OF assms] have "data (page s) = None" by (rule conjunct1)
  then show ?thesis by (simp add: handleReplaceMeal_request_def handleReplaceMeal_no_plan)
qed

lemma handleReplace_consults_request:
  assumes "handleReplace_request st slt target ex = Some req"
  shows "handleReplace server st slt target ex = handleReplace (\<lambda>q. server req) st slt target ex"
  using assms by (auto simp: handleReplace_request_def handleReplace_def split: option.splits)

lemma handleReplace_request_None:
  "handleReplace_request st slt target ex = None \<Longrightarrow> handleReplace server st slt target ex = st"
  by (simp add: handleReplace_request_def handleReplace_def split: option.splits)

text \<open>
  C2. Every replace-meal request that the client issues carries an \<open>exclude_recipe_ids\<close>
  list that holds the identifier of the recipe now in the slot: the request that a meal
  card of the planner page posts, the only request the handler consults the server on,
  has the one-element list of the card's recipe identifier, and the replacement that the
  engine returns for a request never has an identifier of the request's exclusion list,
  so never that of the current recipe. The meal-plan page issues no replace-meal request:
  in every state it can reach it holds no plan, and its handler returns at once.
\<close>

theorem replace_requests_exclude_current_recipe:
  "(\<forall>req. handleReplace_request st (slot_key m) (target_calories m) [recipe_id m] = Some req \<longrightarrow>
        r_exclude_recipe_ids req = Some [recipe_id m]
      \<and> (\<exists>ids. r_exclude_recipe_ids req = Some ids \<and> recipe_id m \<in> set ids)
      \<and> MealCard_onReplace server st m = MealCard_onReplace (\<lambda>q. server req) st m
      \<and> (\<forall>r. replace_engine score corpus req = Inr r \<longrightarrow> rc_id r \<noteq> recipe_id m))
   \<and> (handleReplace_request st (slot_key m) (target_calories m) [recipe_id m] = None \<longrightarrow>
        MealCard_onReplace server st m = st)
   \<and> (\<forall>req ids r. r_exclude_recipe_ids req = Some ids \<and> replace_engine score corpus req = Inr r
          \<longrightarrow> rc_id r \<notin> set ids)
   \<and> (reachable s \<longrightarrow>
        handleReplaceMeal_request (page s) n = None
      \<and> handleReplaceMeal mserver (page s) n = page s)"
proof -
  have 1: "r_exclude_recipe_ids req = Some [recipe_id m]
      \<and> (\<exists>ids. r_exclude_recipe_ids req = Some ids \<and> recipe_id m \<in> set ids)
      \<and> MealCard_onReplace server st m = MealCard_onReplace (\<lambda>q. server req) st m
      \<and> (\<forall>r. replace_engine score corpus req = Inr r \<longrightarrow> rc_id r \<noteq> recipe_id m)"
    if h: "handleReplace_request st (slot_key m) (target_calories m) [recipe_id m] = Some req"
    for req
  proof -
    from h have e: "r_exclude_recipe_ids req = Some [recipe_id m]"
      by (auto simp: handleReplace_request_def replace_payload_def split: option.splits)
    have c: "MealCard_onReplace server st m = MealCard_onReplace (\<lambda>q. server req) st m"
      unfolding MealCard_onReplace_def using h by (rule handleReplace_consults_request)
    have x: "rc_id r \<noteq> recipe_id m" if "replace_engine score corpus req = Inr r" for r
      using replace_engine_excludes [OF that e] by simp
    from e c x show ?thesis by simp
  qed
  have 2: "MealCard_onReplace server st m = st"
    if "handleReplace_request st (slot_key m) (target_calories m) [recipe_id m] = None"
    unfolding MealCard_onReplace_def using that by (rule handleReplace_request_None)
  have 3: "rc_id r \<notin> set ids"
    if "r_exclude_recipe_ids req = Some ids \<and> replace_engine score corpus req = Inr r" for req ids r
    using that replace_engine_excludes by blast
  have 4: "handleReplaceMeal_request (page s) n = None
      \<and> handleReplaceMeal mserver (page s) n = page s" if "reachable s"
    using that by (rule reachable_posts_nothing)
  from 1 2 3 4 show ?thesis by blast
qed

theorem replace_requests_exclude_current_recipe_witness:
  "(\<exists>req. handleReplace_request example_state (slot_key example_lunch)
             (target_calories example_lunch) [recipe_id example_lunch] = Some req
        \<and> r_exclude_recipe_ids req = Some [7]
        \<and> (\<exists>r. replace_engine example_score example_corpus req = Inr r
                \<and> rc_id r = 9 \<and> rc_id r \<noteq> recipe_id example_lunch))
 \<and> reachable (open_page \<lparr>page = initial_page, stored = None\<rparr>)
 \<and> handleReplaceMeal_request (page (open_page \<lparr>page = initial_page, stored = None\<rparr>)) 2 = None"
proof -
  let ?req = "replace_payload (form example_state) (activeDay example_state)
                (slot_key example_lunch) (target_calories example_lunch) [recipe_id example_lunch]"
  let ?s = "open_page \<lparr>page = initial_page, stored = None\<rparr>"
  have h: "handleReplace_request example_state (slot_key example_lunch)
             (target_calories example_lunch) [recipe_id example_lunch] = Some ?req"
    by (simp add: handleReplace_request_def example_state_def)
  have l: "recipe_id example_lunch = 7" by code_simp
  have e: "replace_engine example_score example_corpus ?req = Inr (example_corpus ! 1)"
    and i: "rc_id (example_corpus ! 1) = 9"
    by code_simp+
  have r: "reachable ?s" by (intro reachable.opened reachable.start)
  note t = replace_requests_exclude_current_recipe [where st = example_state and m = example_lunch
      and score = example_score and corpus = example_corpus and s = ?s and n = 2]
  from t h have 1: "r_exclude_recipe_ids ?req = Some [recipe_id example_lunch]"
    and 2: "\<forall>r. replace_engine example_score example_corpus ?req = Inr r
              \<longrightarrow> rc_id r \<noteq> recipe_id example_lunch"
    by blast+
  from 2 e have 3: "rc_id (example_corpus ! 1) \<noteq> recipe_id example_lunch" by blast
  from t r have 4: "handleReplaceMeal_request (page ?s) 2 = None" by blast
  from 1 l have 5: "r_exclude_recipe_ids ?req = Some [7]" by simp
  from h 5 e i 3 r 4 show ?thesis by blast
qed

text \<open>
  Where the meal-plan page is given a plan, which no page under the source does, the
  request that its handler builds for meal 2 of day 1 of the example plan has no
  exclusion list, no day and no slot.
\<close>

lemma mealplan_request_has_no_exclusion:
  "r_exclude_recipe_ids (mealplan_payload example_response 1 2) = None
   \<and> r_day (mealplan_payload example_response 1 2) = None
   \<and> r_slot (mealplan_payload example_response 1 2) = None"
  by code_simp

subsection \<open>The responses that the pages accept\<close>

lemma update_day_Some_meal:
  "\<exists>d'. update_day aday slt (Some nm) d = Some d'"
proof -
  have "map (\<lambda>mm. if slot_key mm = slt then Some nm else Some mm) (meals_of d)
          = map Some (map (\<lambda>mm. if slot_key mm = slt then nm else mm) (meals_of d))"
    by simp
  then have "those (map (\<lambda>mm. if slot_key mm = slt then Some nm else Some mm) (meals_of d))
          = Some (map (\<lambda>mm. if slot_key mm = slt then nm else mm) (meals_of d))"
    by (simp only: those_map_Some)
  then show ?thesis by (simp add: update_day_def Let_def)
qed

lemma those_update_days:
  "\<exists>newDays. those (map (update_day aday slt (Some nm)) ds) = Some newDays"
proof (induction ds)
  case Nil
  show ?case by simp
next
  case (Cons d ds)
  from update_day_Some_meal [of aday slt nm d] obtain d' where
    "update_day aday slt (Some nm) d = Some d'" by blast
  with Cons show ?case by auto
qed

lemma replace_try_ok_meal:
  assumes "res_ok code" and "rb_status body = Some ''ok''" and "rb_meal body = Some nm"
  shows "\<exists>nxt. replace_try p aday slt (Response code (Some body)) = Inr nxt
            \<and> planner_frame aday slt nm p nxt"
proof -
  from those_update_days [of aday slt nm "days_of p"] obtain newDays where
    t: "those (map (update_day aday slt (Some nm)) (days_of p)) = Some newDays" by blast
  define nxt where "nxt = p\<lparr>days := Some newDays,
      overall_totals := Some (round_totals (foldl add_day zero_totals newDays)),
      shopping_list := Some \<lparr>total_unique = length (shopping_items newDays),
                             items = shopping_items newDays\<rparr>\<rparr>"
  have r: "replace_try p aday slt (Response code (Some body)) = Inr nxt"
    using assms t by (simp add: replace_try_def Let_def nxt_def)
  have d: "days_of nxt = newDays" by (simp add: nxt_def days_of_def)
  from those_Some [OF t] have m: "map (update_day aday slt (Some nm)) (days_of p) = map Some newDays" .
  from map_eq_nth [OF m] have len: "length (days_of nxt) = length (days_of p)"
    and upd: "\<And>i. i < length (days_of p) \<Longrightarrow>
            update_day aday slt (Some nm) (days_of p ! i) = Some (days_of nxt ! i)"
    unfolding d by blast+
  have "planner_frame aday slt nm p nxt"
  proof (rule frame_of_updates [OF len])
    show "update_day aday slt (Some nm) (days_of p ! i) = Some (days_of nxt ! i)"
      if "i < length (days_of p)" for i
      using that by (rule upd)
    show "Some nm = None \<or> Some nm = Some nm" by simp
  qed
  with r show ?thesis by blast
qed

lemma replace_try_not_ok:
  assumes "\<not> (res_ok code \<and> rb_status body = Some ''ok'')"
  shows "replace_try p aday slt (Response code (Some body))
           = Inl (Text (case rb_detail body of Some d \<Rightarrow> d | None \<Rightarrow> ''Replace failed''))"
  using assms by (auto simp: replace_try_def)

lemma mealplan_replace_try_cases:
  "(res_ok code \<and> rb_status body = Some ''ok'' \<and> rb_replacement body = Some r
      \<longrightarrow> mealplan_replace_try (Response code (Some body)) = Inr r)
 \<and> (res_ok code \<and> \<not> (rb_status body = Some ''ok'' \<and> rb_replacement body \<noteq> None)
      \<longrightarrow> mealplan_replace_try (Response code (Some body))
            = Inl (Text (case rb_message body of Some m \<Rightarrow> m | None \<Rightarrow> ''No replacement returned'')))
 \<and> (\<not> res_ok code
      \<longrightarrow> mealplan_replace_try (Response code (Some body))
            = Inl (case rb_detail body of Some d \<Rightarrow> Text d
                   | None \<Rightarrow> (case rb_message body of Some m \<Rightarrow> Text m | None \<Rightarrow> HttpFailed code)))"
  by (auto simp: mealplan_replace_try_def Let_def split: option.splits)

text \<open>
  The planner page takes a replace-meal response as successful when it is HTTP-ok with
  status "ok"; it then reads the new meal from the key \<open>meal\<close> and puts it at the
  targeted slot of the active day. Any other response is a failure, shown with the
  \<open>detail\<close> string of the response or the text "Replace failed". The meal-plan page reads
  the key \<open>replacement\<close> instead (recipe name, ingredients, totals): an HTTP-ok response
  with status "ok" and a \<open>replacement\<close> updates the plan, an HTTP-ok response without
  one is a failure shown with its \<open>message\<close> or "No replacement returned", and a response
  that is not HTTP-ok is a failure shown with its \<open>detail\<close>, else its \<open>message\<close>, else the
  HTTP status.
\<close>

lemma replace_response_contract:
  assumes "result st = Some p"
    and "server (replace_payload (form st) (activeDay st) slt target ex) = Response code (Some body)"
    and "data mst = Some prev"
    and "mserver (mealplan_payload prev (mp_activeDay mst) n) = Response mcode (Some mbody)"
  shows "(res_ok code \<and> rb_status body = Some ''ok'' \<and> rb_meal body = Some nm \<longrightarrow>
            (\<exists>nxt. handleReplace server st slt target ex = st\<lparr>error := None, result := Some nxt\<rparr>
                  \<and> planner_frame (activeDay st) slt nm p nxt))
       \<and> (\<not> (res_ok code \<and> rb_status body = Some ''ok'') \<longrightarrow>
            handleReplace server st slt target ex
              = st\<lparr>error := Some (Text (case rb_detail body of Some d \<Rightarrow> d
                                         | None \<Rightarrow> ''Replace failed''))\<rparr>)
       \<and> (res_ok mcode \<and> rb_status mbody = Some ''ok'' \<and> rb_replacement mbody = Some r \<longrightarrow>
            handleReplaceMeal mserver mst n
              = mst\<lparr>err := None, data := Some (apply_replacement prev (mp_activeDay mst) n r)\<rparr>)
       \<and> (res_ok mcode \<and> \<not> (rb_status mbody = Some ''ok'' \<and> rb_replacement mbody \<noteq> None) \<longrightarrow>
            handleReplaceMeal mserver mst n
              = mst\<lparr>err := Some (Text (case rb_message mbody of Some m \<Rightarrow> m
                                        | None \<Rightarrow> ''No replacement returned''))\<rparr>)
       \<and> (\<not> res_ok mcode \<longrightarrow>
            handleReplaceMeal mserver mst n
              = mst\<lparr>err := Some (case rb_detail mbody of Some d \<Rightarrow> Text d
                                  | None \<Rightarrow> (case rb_message mbody of Some m \<Rightarrow> Text m
                                             | None \<Rightarrow> HttpFailed mcode))\<rparr>)"
proof -
  have 1: "\<exists>nxt. handleReplace server st slt target ex = st\<lparr>error := None, result := Some nxt\<rparr>
                  \<and> planner_frame (activeDay st) slt nm p nxt"
    if "res_ok code \<and> rb_status body = Some ''ok'' \<and> rb_meal body = Some nm"
  proof -
    from that replace_try_ok_meal [of code body nm p "activeDay st" slt] obtain nxt where
      "replace_try p (activeDay st) slt (Response code (Some body)) = Inr nxt"
      "planner_frame (activeDay st) slt nm p nxt"
      by blast
    then show ?thesis using assms(1,2) by (auto simp: handleReplace_def)
  qed
  have 2: "handleReplace server st slt target ex
              = st\<lparr>error := Some (Text (case rb_detail body of Some d \<Rightarrow> d
                                         | None \<Rightarrow> ''Replace failed''))\<rparr>"
    if "\<not> (res_ok code \<and> rb_status body = Some ''ok'')"
    using replace_try_not_ok [OF that] assms(1,2) by (simp add: handleReplace_def)
  note m = mealplan_replace_try_cases [of mcode mbody r]
  have 3: "handleReplaceMeal mserver mst n
              = mst\<lparr>err := None, data := Some (apply_replacement prev (mp_activeDay mst) n r)\<rparr>"
    if "res_ok mcode \<and> rb_status mbody = Some ''ok'' \<and> rb_replacement mbody = Some r"
    using that m assms(3,4) by (simp add: handleReplaceMeal_def)
  have 4: "handleReplaceMeal mserver mst n
              = mst\<lparr>err := Some (Text (case rb_message mbody of Some m \<Rightarrow> m
                                        | None \<Rightarrow> ''No replacement returned''))\<rparr>"
    if "res_ok mcode \<and> \<not> (rb_status mbody = Some ''ok'' \<and> rb_replacement mbody \<noteq> None)"
    using that m assms(3,4) by (simp add: handleReplaceMeal_def)
  have 5: "handleReplaceMeal mserver mst n
              = mst\<lparr>err := Some (case rb_detail mbody of Some d \<Rightarrow> Text d
                                  | None \<Rightarrow> (case rb_message mbody of Some m \<Rightarrow> Text m
                                             | None \<Rightarrow> HttpFailed mcode))\<rparr>"
    if "\<not> res_ok mcode"
    using that m assms(3,4) by (simp add: handleReplaceMeal_def)
  from 1 2 3 4 5 show ?thesis by blast
qed

lemma replace_response_contract_example:
  "(\<exists>nxt. handleReplace example_server example_state ''lunch'' 600 [7]
             = example_state\<lparr>error := None, result := Some nxt\<rparr>
        \<and> planner_frame (activeDay example_state) ''lunch'' example_new_meal example_plan nxt)
 \<and> handleReplace example_failing_server example_state ''lunch'' 600 [7]
       = example_state\<lparr>error := Some (Text ''No alternative recipe'')\<rparr>
 \<and> handleReplaceMeal example_mealplan_server example_mealplan_state 2
       = example_mealplan_state\<lparr>err := None,
           data := Some (apply_replacement example_response
                           (mp_activeDay example_mealplan_state) 2 example_replacement)\<rparr>
 \<and> handleReplaceMeal example_failing_server example_mealplan_state 2
       = example_mealplan_state\<lparr>err := Some (Text ''No alternative recipe'')\<rparr>"
proof -
  have s: "result example_state = Some example_plan"
    "data example_mealplan_state = Some example_response"
    by code_simp+
  have a: "example_server (replace_payload (form example_state) (activeDay example_state)
             ''lunch'' 600 [7])
           = Response 200 (Some \<lparr>rb_status = Some ''ok'', rb_meal = Some example_new_meal,
               rb_replacement = None, rb_detail = None, rb_message = None\<rparr>)"
    by (simp add: example_server_def)
  have b: "example_mealplan_server (mealplan_payload example_response
             (mp_activeDay example_mealplan_state) 2)
           = Response 200 (Some \<lparr>rb_status = Some ''ok'', rb_meal = None,
               rb_replacement = Some example_replacement, rb_detail = None, rb_message = None\<rparr>)"
    by (simp add: example_mealplan_server_def)
  have c: "example_failing_server (replace_payload (form example_state) (activeDay example_state)
             ''lunch'' 600 [7])
           = Response 404 (Some \<lparr>rb_status = Some ''error'', rb_meal = None,
               rb_replacement = None, rb_detail = Some ''No alternative recipe'', rb_message = None\<rparr>)"
    by (simp add: example_failing_server_def)
  have d: "example_failing_server (mealplan_payload example_response
             (mp_activeDay example_mealplan_state) 2)
           = Response 404 (Some \<lparr>rb_status = Some ''error'', rb_meal = None,
               rb_replacement = None, rb_detail = Some ''No alternative recipe'', rb_message = None\<rparr>)"
    by (simp add: example_failing_server_def)
  have k: "res_ok 200" "\<not> res_ok 404" by (simp_all add: res_ok_def)
  from replace_response_contract [where st = example_state and p = example_plan
      and server = example_server and slt = "''lunch''" and target = 600 and ex = "[7]"
      and mst = example_mealplan_state and prev = example_response and mserver = example_mealplan_server
      and n = 2 and nm = example_new_meal and r = example_replacement, OF s(1) a s(2) b] k
  have 1: "\<exists>nxt. handleReplace example_server example_state ''lunch'' 600 [7]
             = example_state\<lparr>error := None, result := Some nxt\<rparr>
        \<and> planner_frame (activeDay example_state) ''lunch'' example_new_meal example_plan nxt"
    and 3: "handleReplaceMeal example_mealplan_server example_mealplan_state 2
       = example_mealplan_state\<lparr>err := None,
           data := Some (apply_replacement example_response
                           (mp_activeDay example_mealplan_state) 2 example_replacement)\<rparr>"
    by simp_all
  from replace_response_contract [where st = example_state and p = example_plan
      and server = example_failing_server and slt = "''lunch''" and target = 600 and ex = "[7]"
      and mst = example_mealplan_state and prev = example_response and mserver = example_failing_server
      and n = 2 and nm = example_new_meal and r = example_replacement, OF s(1) c s(2) d] k
  have 2: "handleReplace example_failing_server example_state ''lunch'' 600 [7]
       = example_state\<lparr>error := Some (Text ''No alternative recipe'')\<rparr>"
    and 4: "handleReplaceMeal example_failing_server example_mealplan_state 2
       = example_mealplan_state\<lparr>err := Some (Text ''No alternative recipe'')\<rparr>"
    by simp_all
  from 1 2 3 4 show ?thesis by blast
qed

lemma replace_try_Inr_ok:
  "replace_try p aday slt (Response code (Some body)) = Inr nxt
     \<Longrightarrow> res_ok code \<and> rb_status body = Some ''ok''"
  by (auto simp: replace_try_def split: if_splits)

lemma replace_try_reads:
  "replace_try p aday slt (Response code (Some (body\<lparr>rb_replacement := x, rb_message := y\<rparr>)))
     = replace_try p aday slt (Response code (Some body))"
  by (simp add: replace_try_def)

lemma replace_meal_response_found:
  "replace_meal_response ok_code err_code in_detail (Inr m)
     = Response ok_code (Some \<lparr>rb_status = Some ''ok'', rb_meal = Some m,
                              rb_replacement = None, rb_detail = None, rb_message = None\<rparr>)"
  by (simp add: replace_meal_response_def)

lemma replace_meal_response_failed:
  "replace_meal_response ok_code err_code in_detail (Inl etext)
     = Response err_code (Some \<lparr>rb_status = Some ''error'', rb_meal = None,
                               rb_replacement = None,
                               rb_detail = (if in_detail then Some etext else None),
                               rb_message = (if in_detail then None else Some etext)\<rparr>)"
  by (simp add: replace_meal_response_def)

lemma planner_reads_contract_response:
  assumes p: "result st = Some p"
    and s: "server (replace_payload (form st) (activeDay st) slt target ex)
              = replace_meal_response ok_code err_code in_detail outcome"
    and k: "res_ok ok_code"
  shows "(\<forall>m. outcome = Inr m \<longrightarrow>
            (\<exists>nxt. handleReplace server st slt target ex = st\<lparr>error := None, result := Some nxt\<rparr>
                  \<and> planner_frame (activeDay st) slt m p nxt))
       \<and> (\<forall>etext. outcome = Inl etext \<longrightarrow>
            handleReplace server st slt target ex
              = st\<lparr>error := Some (Text (if in_detail then etext else ''Replace failed''))\<rparr>)"
proof (intro conjI allI impI)
  fix m assume "outcome = Inr m"
  with s have "server (replace_payload (form st) (activeDay st) slt target ex)
     = Response ok_code (Some \<lparr>rb_status = Some ''ok'', rb_meal = Some m,
                              rb_replacement = None, rb_detail = None, rb_message = None\<rparr>)"
    by (simp add: replace_meal_response_found)
  with replace_try_ok_meal [of ok_code "\<lparr>rb_status = Some ''ok'', rb_meal = Some m,
      rb_replacement = None, rb_detail = None, rb_message = None\<rparr>" m p "activeDay st" slt] k p
  show "\<exists>nxt. handleReplace server st slt target ex = st\<lparr>error := None, result := Some nxt\<rparr>
                  \<and> planner_frame (activeDay st) slt m p nxt"
    by (auto simp: handleReplace_def)
next
  fix etext assume "outcome = Inl etext"
  with s have r: "server (replace_payload (form st) (activeDay st) slt target ex)
     = Response err_code (Some \<lparr>rb_status = Some ''error'', rb_meal = None,
                               rb_replacement = None,
                               rb_detail = (if in_detail then Some etext else None),
                               rb_message = (if in_detail then None else Some etext)\<rparr>)"
    by (simp add: replace_meal_response_failed)
  have "replace_try p (activeDay st) slt
          (Response err_code (Some \<lparr>rb_status = Some ''error'', rb_meal = None,
                               rb_replacement = None,
                               rb_detail = (if in_detail then Some etext else None),
                               rb_message = (if in_detail then None else Some etext)\<rparr>))
        = Inl (Text (if in_detail then etext else ''Replace failed''))"
    by (simp add: replace_try_def)
  with r p show "handleReplace server st slt target ex
              = st\<lparr>error := Some (Text (if in_detail then etext else ''Replace failed''))\<rparr>"
    by (simp add: handleReplace_def)
qed

text \<open>
  C6. For a successful replace-meal call the response has status "ok" and carries the new
  meal under the key \<open>meal\<close>, a meal of the same type as the meals of a generated plan, and
  that key is what the client reads to update its plan: the planner page puts the meal of
  such a response in place of the meals of the active day that have the targeted slot key,
  takes a response as successful only when it is HTTP-ok with status "ok", and reads
  neither \<open>replacement\<close> nor \<open>message\<close>. A failure response, with status "error" and its text under \<open>detail\<close> or
  \<open>message\<close>, leaves the plan as it was; the page shows the \<open>detail\<close> text, and "Replace
  failed" when the text comes under \<open>message\<close>. The meal-plan page makes no replace-meal
  call: in every state it can reach it holds no plan.
\<close>

theorem replace_response_is_read_from_meal:
  assumes "result st = Some p"
    and "server (replace_payload (form st) (activeDay st) slt target ex)
           = replace_meal_response ok_code err_code in_detail outcome"
    and "res_ok ok_code"
  shows "(\<forall>m. outcome = Inr m \<longrightarrow>
            (\<exists>nxt. handleReplace server st slt target ex = st\<lparr>error := None, result := Some nxt\<rparr>
                  \<and> planner_frame (activeDay st) slt m p nxt))
       \<and> (\<forall>etext. outcome = Inl etext \<longrightarrow>
            handleReplace server st slt target ex
              = st\<lparr>error := Some (Text (if in_detail then etext else ''Replace failed''))\<rparr>)
       \<and> (\<forall>code (body :: replace_body) nxt.
            replace_try p (activeDay st) slt (Response code (Some body)) = Inr nxt
              \<longrightarrow> res_ok code \<and> rb_status body = Some ''ok'')
       \<and> (\<forall>code (body :: replace_body) x y.
            replace_try p (activeDay st) slt
               (Response code (Some (body\<lparr>rb_replacement := x, rb_message := y\<rparr>)))
              = replace_try p (activeDay st) slt (Response code (Some body)))
       \<and> (reachable s \<longrightarrow> handleReplaceMeal mserver (page s) n = page s)"
proof -
  have a: "(\<forall>m. outcome = Inr m \<longrightarrow>
            (\<exists>nxt. handleReplace server st slt target ex = st\<lparr>error := None, result := Some nxt\<rparr>
                  \<and> planner_frame (activeDay st) slt m p nxt))
       \<and> (\<forall>etext. outcome = Inl etext \<longrightarrow>
            handleReplace server st slt target ex
              = st\<lparr>error := Some (Text (if in_detail then etext else ''Replace failed''))\<rparr>)"
    using assms by (rule planner_reads_contract_response)
  have 1: "\<forall>m. outcome = Inr m \<longrightarrow>
            (\<exists>nxt. handleReplace server st slt target ex = st\<lparr>error := None, result := Some nxt\<rparr>
                  \<and> planner_frame (activeDay st) slt m p nxt)"
    using a by (rule conjunct1)
  have 2: "\<forall>etext. outcome = Inl etext \<longrightarrow>
            handleReplace server st slt target ex
              = st\<lparr>error := Some (Text (if in_detail then etext else ''Replace failed''))\<rparr>"
    using a by (rule conjunct2)
  have 3: "\<forall>code (body :: replace_body) nxt.
            replace_try p (activeDay st) slt (Response code (Some body)) = Inr nxt
              \<longrightarrow> res_ok code \<and> rb_status body = Some ''ok''"
    by (intro allI impI) (rule replace_try_Inr_ok)
  have 4: "\<forall>code (body :: replace_body) x y.
            replace_try p (activeDay st) slt
               (Response code (Some (body\<lparr>rb_replacement := x, rb_message := y\<rparr>)))
              = replace_try p (activeDay st) slt (Response code (Some body))"
    by (intro allI) (rule replace_try_reads)
  have 5: "reachable s \<longrightarrow> handleReplaceMeal mserver (page s) n = page s"
  proof
    assume "reachable s"
    from reachable_posts_nothing [OF this, of n mserver]
    show "handleReplaceMeal mserver (page s) n = page s" by (rule conjunct2)
  qed
  from 1 2 3 4 5 show ?thesis by (intro conjI)
qed

theorem replace_response_is_read_from_meal_witness:
  "(\<exists>nxt. handleReplace example_server example_state ''lunch'' 600 [7]
             = example_state\<lparr>error := None, result := Some nxt\<rparr>
        \<and> planner_frame (activeDay example_state) ''lunch'' example_new_meal example_plan nxt)
 \<and> handleReplace example_failing_server example_state ''lunch'' 600 [7]
       = example_state\<lparr>error := Some (Text ''No alternative recipe'')\<rparr>
 \<and> handleReplaceMeal example_mealplan_server
       (page (open_page \<lparr>page = initial_page, stored = None\<rparr>)) 2
       = page (open_page \<lparr>page = initial_page, stored = None\<rparr>)"
proof -
  let ?s = "open_page \<lparr>page = initial_page, stored = None\<rparr>"
  have p: "result example_state = Some example_plan" by code_simp
  have a: "example_server (replace_payload (form example_state) (activeDay example_state)
             ''lunch'' 600 [7])
           = replace_meal_response 200 404 True (Inr example_new_meal)"
    by (simp add: example_server_def replace_meal_response_def)
  have c: "example_failing_server (replace_payload (form example_state) (activeDay example_state)
             ''lunch'' 600 [7])
           = replace_meal_response 200 404 True (Inl ''No alternative recipe'')"
    by (simp add: example_failing_server_def replace_meal_response_def)
  have k: "res_ok 200" by (simp add: res_ok_def)
  have r: "reachable ?s" by (intro reachable.opened reachable.start)
  note good = replace_response_is_read_from_meal [where st = example_state and p = example_plan
      and server = example_server and slt = "''lunch''" and target = 600 and ex = "[7]"
      and ok_code = 200 and err_code = 404 and in_detail = True
      and outcome = "Inr example_new_meal" and s = ?s and mserver = example_mealplan_server
      and n = 2]
  note bad = replace_response_is_read_from_meal [where st = example_state and p = example_plan
      and server = example_failing_server and slt = "''lunch''" and target = 600 and ex = "[7]"
      and ok_code = 200 and err_code = 404 and in_detail = True
      and outcome = "Inl ''No alternative recipe''" and s = ?s
      and mserver = example_mealplan_server and n = 2]
  from good p a k have 1: "\<exists>nxt. handleReplace example_server example_state ''lunch'' 600 [7]
             = example_state\<lparr>error := None, result := Some nxt\<rparr>
        \<and> planner_frame (activeDay example_state) ''lunch'' example_new_meal example_plan nxt"
    by blast
  from bad p c k have 2: "handleReplace example_failing_server example_state ''lunch'' 600 [7]
       = example_state\<lparr>error := Some (Text ''No alternative recipe'')\<rparr>"
    by simp
  from good p a k r have 3: "handleReplaceMeal example_mealplan_server (page ?s) 2 = page ?s"
    by blast
  from 1 2 3 show ?thesis by (intro conjI)
qed

text \<open>
  Where the meal-plan page is given a plan, its handler answers a response that carries
  the meal under \<open>meal\<close> and has no \<open>replacement\<close> with "No replacement returned", and
  keeps its plan.
\<close>

lemma mealplan_page_ignores_meal_key:
  "handleReplaceMeal example_server example_mealplan_state 2
     = example_mealplan_state\<lparr>err := Some (Text ''No replacement returned'')\<rparr>
   \<and> data (handleReplaceMeal example_server example_mealplan_state 2) = data example_mealplan_state"
  by code_simp

subsection \<open>Validation of a request\<close>

lemma generate_try_rejected:
  assumes "\<not> (res_ok code \<and> gb_status body = Some ''ok'')"
  shows "\<exists>msg. generate_try (Response code (Some body)) = Inl (Text msg)"
  using assms by (auto simp: generate_try_def)

lemma validate_request_rejects:
  assumes "g_days req < 1 \<or> 14 < g_days req \<or> g_meals_per_day req < 1 \<or> 6 < g_meals_per_day req
           \<or> g_calories req < cal_min \<or> cal_max < g_calories req"
  shows "\<exists>fld. validate_request cal_min cal_max req = Inl (ValidationError fld)
          \<and> (fld = ''days'' \<and> (g_days req < 1 \<or> 14 < g_days req)
             \<or> fld = ''meals_per_day'' \<and> (g_meals_per_day req < 1 \<or> 6 < g_meals_per_day req)
             \<or> fld = ''calories'' \<and> (g_calories req < cal_min \<or> cal_max < g_calories req))"
proof (cases "g_days req < 1 \<or> 14 < g_days req")
  case True
  then have "validate_request cal_min cal_max req = Inl (ValidationError ''days'')"
    by (simp add: validate_request_def)
  with True show ?thesis by blast
next
  case days: False
  show ?thesis
  proof (cases "g_meals_per_day req < 1 \<or> 6 < g_meals_per_day req")
    case True
    with days have "validate_request cal_min cal_max req = Inl (ValidationError ''meals_per_day'')"
      by (simp add: validate_request_def)
    with True show ?thesis by blast
  next
    case False
    with days assms have c: "g_calories req < cal_min \<or> cal_max < g_calories req" by blast
    with days False have "validate_request cal_min cal_max req = Inl (ValidationError ''calories'')"
      by (simp add: validate_request_def)
    with c show ?thesis by blast
  qed
qed

lemma validate_request_accepts:
  assumes "\<not> (g_days req < 1 \<or> 14 < g_days req \<or> g_meals_per_day req < 1 \<or> 6 < g_meals_per_day req
           \<or> g_calories req < cal_min \<or> cal_max < g_calories req)"
  shows "validate_request cal_min cal_max req = Inr req"
  using assms by (simp add: validate_request_def)

lemma generate_plan_rejects:
  fixes compose :: "'c \<Rightarrow> generate_request \<Rightarrow> server_error + 'p"
  assumes "validate_request cal_min cal_max req = Inl e"
  shows "generate_plan cal_min cal_max compose corpus req = Inl e"
  using assms by (simp add: generate_plan_def)

lemma generate_plan_accepts:
  fixes compose :: "'c \<Rightarrow> generate_request \<Rightarrow> server_error + 'p"
  assumes "validate_request cal_min cal_max req = Inr req"
  shows "generate_plan cal_min cal_max compose corpus req = compose corpus req"
  using assms by (simp add: generate_plan_def)

lemma handleGenerate_rejected:
  assumes "\<not> loading st" and "server (generate_payload (form st)) = Response code (Some body)"
    and "\<not> (res_ok code \<and> gb_status body = Some ''ok'')"
  shows "result (handleGenerate server st) = None
        \<and> (\<exists>msg. error (handleGenerate server st) = Some (Text msg))"
proof -
  from generate_try_rejected [OF assms(3)] obtain msg where
    "generate_try (Response code (Some body)) = Inl (Text msg)" by blast
  then have "handleGenerate server st = st\<lparr>loading := False, error := Some (Text msg), result := None\<rparr>"
    using assms(1,2) by (simp add: handleGenerate_def)
  then show ?thesis by simp
qed

text \<open>
  C7. The planner page does not check the ranges: the request it submits carries the
  calories, the meals per day and the days as they stand in the form, so they are in 1..6
  and 1..14 when the form values are. A request whose days, meals per day or calories
  are out of range is rejected by the engine with a ValidationError that names an
  offending field, whatever the corpus and the composer are; a request in range is
  passed to the composer. When the response to a generate request is not HTTP-ok with
  status "ok", the page keeps no plan and shows a message.
\<close>

theorem requests_unchecked_by_page_validated_by_engine:
  fixes compose :: "'c \<Rightarrow> generate_request \<Rightarrow> server_error + 'p"
  shows
  "g_calories (generate_payload f) = form_calories f
   \<and> g_meals_per_day (generate_payload f) = form_meals_per_day f
   \<and> g_days (generate_payload f) = form_days f
   \<and> (g_days req < 1 \<or> 14 < g_days req \<or> g_meals_per_day req < 1 \<or> 6 < g_meals_per_day req
         \<or> g_calories req < cal_min \<or> cal_max < g_calories req \<longrightarrow>
        (\<exists>fld. (fld = ''days'' \<and> (g_days req < 1 \<or> 14 < g_days req)
                  \<or> fld = ''meals_per_day'' \<and> (g_meals_per_day req < 1 \<or> 6 < g_meals_per_day req)
                  \<or> fld = ''calories'' \<and> (g_calories req < cal_min \<or> cal_max < g_calories req))
              \<and> (\<forall>(composer :: 'c \<Rightarrow> generate_request \<Rightarrow> server_error + 'p) recipes.
                    generate_plan cal_min cal_max composer recipes req = Inl (ValidationError fld))))
   \<and> (\<not> (g_days req < 1 \<or> 14 < g_days req \<or> g_meals_per_day req < 1 \<or> 6 < g_meals_per_day req
         \<or> g_calories req < cal_min \<or> cal_max < g_calories req) \<longrightarrow>
        generate_plan cal_min cal_max compose corpus req = compose corpus req)
   \<and> (\<not> loading st \<and> server (generate_payload (form st)) = Response code (Some body)
         \<and> \<not> (res_ok code \<and> gb_status body = Some ''ok'') \<longrightarrow>
        result (handleGenerate server st) = None
        \<and> (\<exists>msg. error (handleGenerate server st) = Some (Text msg)))"
proof -
  have p1: "g_calories (generate_payload f) = form_calories f"
    and p2: "g_meals_per_day (generate_payload f) = form_meals_per_day f"
    and p3: "g_days (generate_payload f) = form_days f"
    by (simp_all add: generate_payload_def)
  have p4: "g_days req < 1 \<or> 14 < g_days req \<or> g_meals_per_day req < 1 \<or> 6 < g_meals_per_day req
         \<or> g_calories req < cal_min \<or> cal_max < g_calories req \<longrightarrow>
        (\<exists>fld. (fld = ''days'' \<and> (g_days req < 1 \<or> 14 < g_days req)
                  \<or> fld = ''meals_per_day'' \<and> (g_meals_per_day req < 1 \<or> 6 < g_meals_per_day req)
                  \<or> fld = ''calories'' \<and> (g_calories req < cal_min \<or> cal_max < g_calories req))
              \<and> (\<forall>(composer :: 'c \<Rightarrow> generate_request \<Rightarrow> server_error + 'p) recipes.
                    generate_plan cal_min cal_max composer recipes req = Inl (ValidationError fld)))"
  proof
    assume "g_days req < 1 \<or> 14 < g_days req \<or> g_meals_per_day req < 1 \<or> 6 < g_meals_per_day req
         \<or> g_calories req < cal_min \<or> cal_max < g_calories req"
    from validate_request_rejects [OF this] obtain fld where
      v: "validate_request cal_min cal_max req = Inl (ValidationError fld)" and
      o: "fld = ''days'' \<and> (g_days req < 1 \<or> 14 < g_days req)
             \<or> fld = ''meals_per_day'' \<and> (g_meals_per_day req < 1 \<or> 6 < g_meals_per_day req)
             \<or> fld = ''calories'' \<and> (g_calories req < cal_min \<or> cal_max < g_calories req)"
      by (elim exE conjE)
    have "\<forall>(composer :: 'c \<Rightarrow> generate_request \<Rightarrow> server_error + 'p) recipes.
            generate_plan cal_min cal_max composer recipes req = Inl (ValidationError fld)"
      by (intro allI) (rule generate_plan_rejects [OF v])
    with o show "\<exists>fld. (fld = ''days'' \<and> (g_days req < 1 \<or> 14 < g_days req)
                  \<or> fld = ''meals_per_day'' \<and> (g_meals_per_day req < 1 \<or> 6 < g_meals_per_day req)
                  \<or> fld = ''calories'' \<and> (g_calories req < cal_min \<or> cal_max < g_calories req))
              \<and> (\<forall>(composer :: 'c \<Rightarrow> generate_request \<Rightarrow> server_error + 'p) recipes.
                    generate_plan cal_min cal_max composer recipes req = Inl (ValidationError fld))"
      by (intro exI [of _ fld] conjI)
  qed
  have p5: "\<not> (g_days req < 1 \<or> 14 < g_days req \<or> g_meals_per_day req < 1 \<or> 6 < g_meals_per_day req
         \<or> g_calories req < cal_min \<or> cal_max < g_calories req) \<longrightarrow>
        generate_plan cal_min cal_max compose corpus req = compose corpus req"
  proof
    assume "\<not> (g_days req < 1 \<or> 14 < g_days req \<or> g_meals_per_day req < 1 \<or> 6 < g_meals_per_day req
         \<or> g_calories req < cal_min \<or> cal_max < g_calories req)"
    from generate_plan_accepts [OF validate_request_accepts [OF this]]
    show "generate_plan cal_min cal_max compose corpus req = compose corpus req" .
  qed
  have p6: "\<not> loading st \<and> server (generate_payload (form st)) = Response code (Some body)
         \<and> \<not> (res_ok code \<and> gb_status body = Some ''ok'') \<longrightarrow>
        result (handleGenerate server st) = None
        \<and> (\<exists>msg. error (handleGenerate server st) = Some (Text msg))"
  proof
    assume a: "\<not> loading st \<and> server (generate_payload (form st)) = Response code (Some body)
         \<and> \<not> (res_ok code \<and> gb_status body = Some ''ok'')"
    from a have a1: "\<not> loading st" by (rule conjunct1)
    from a have a2: "server (generate_payload (form st)) = Response code (Some body)"
      by (rule conjunct2 [THEN conjunct1])
    from a have a3: "\<not> (res_ok code \<and> gb_status body = Some ''ok'')"
      by (rule conjunct2 [THEN conjunct2])
    from a1 a2 a3 show "result (handleGenerate server st) = None
        \<and> (\<exists>msg. error (handleGenerate server st) = Some (Text msg))"
      by (rule handleGenerate_rejected)
  qed
  from p1 p2 p3 p4 p5 p6 show ?thesis by (intro conjI)
qed

theorem requests_unchecked_by_page_validated_by_engine_witness:
  "g_days (generate_payload example_form_out_of_range) = 30
   \<and> generate_plan 800 6000 (\<lambda>(corpus :: unit) req. Inr req) ()
        (generate_payload example_form_out_of_range) = Inl (ValidationError ''days'')
   \<and> generate_plan 800 6000 (\<lambda>(corpus :: unit) req. Inr req) ()
        (generate_payload example_form) = Inr (generate_payload example_form)
   \<and> result (handleGenerate example_validating_server example_generate_state) = None
   \<and> (\<exists>msg. error (handleGenerate example_validating_server example_generate_state) = Some (Text msg))"
proof -
  let ?bad = "generate_payload example_form_out_of_range"
  let ?good = "generate_payload example_form"
  let ?compose = "\<lambda>(corpus :: unit) (req :: generate_request). (Inr req :: server_error + generate_request)"
  let ?body = "\<lparr>gb_status = Some ''error'', gb_plan = None, gb_message = Some ''days'',
                 gb_detail = None\<rparr>"
  have d: "form_days example_form_out_of_range = 30" by code_simp
  have out: "g_days ?bad < 1 \<or> 14 < g_days ?bad \<or> g_meals_per_day ?bad < 1 \<or> 6 < g_meals_per_day ?bad
         \<or> g_calories ?bad < 800 \<or> 6000 < g_calories ?bad"
    by code_simp
  have inr: "\<not> (g_days ?good < 1 \<or> 14 < g_days ?good \<or> g_meals_per_day ?good < 1 \<or> 6 < g_meals_per_day ?good
         \<or> g_calories ?good < 800 \<or> 6000 < g_calories ?good)"
    by code_simp
  have srv: "\<not> loading example_generate_state
      \<and> example_validating_server (generate_payload (form example_generate_state)) = Response 422 (Some ?body)
      \<and> \<not> (res_ok 422 \<and> gb_status ?body = Some ''ok'')"
    by code_simp
  have ev: "generate_plan 800 6000 ?compose () ?bad = Inl (ValidationError ''days'')"
    by code_simp
  note t1 = requests_unchecked_by_page_validated_by_engine
    [where f = example_form_out_of_range and req = ?bad and cal_min = 800 and cal_max = 6000
       and compose = ?compose and corpus = "()" and st = example_generate_state
       and server = example_validating_server and code = 422 and body = ?body]
  note t2 = requests_unchecked_by_page_validated_by_engine
    [where f = example_form and req = ?good and cal_min = 800 and cal_max = 6000
       and compose = ?compose and corpus = "()" and st = example_generate_state
       and server = example_validating_server and code = 422 and body = ?body]
  from t1 d have 1: "g_days ?bad = 30" by simp
  from t1 out obtain fld where
    "\<forall>(composer :: unit \<Rightarrow> generate_request \<Rightarrow> server_error + generate_request) recipes.
       generate_plan 800 6000 composer recipes ?bad = Inl (ValidationError fld)"
    by blast
  then have "generate_plan 800 6000 ?compose () ?bad = Inl (ValidationError fld)"
    by (elim allE)
  with ev have 2: "generate_plan 800 6000 ?compose () ?bad = Inl (ValidationError ''days'')" by simp
  from t2 inr have 3: "generate_plan 800 6000 ?compose () ?good = Inr ?good" by blast
  from t1 srv have 4: "result (handleGenerate example_validating_server example_generate_state) = None"
    and 5: "\<exists>msg. error (handleGenerate example_validating_server example_generate_state) = Some (Text msg)"
    by blast+
  from 1 2 3 4 5 show ?thesis by (intro conjI)
qed

theorem out_of_range_request_is_submitted:
  "\<not> (1 \<le> g_meals_per_day (generate_payload example_form_out_of_range)
        \<and> g_meals_per_day (generate_payload example_form_out_of_range) \<le> 6)
   \<and> \<not> (1 \<le> g_days (generate_payload example_form_out_of_range)
        \<and> g_days (generate_payload example_form_out_of_range) \<le> 14)
   \<and> g_meals_per_day (generate_payload example_form_out_of_range) = 9
   \<and> g_days (generate_payload example_form_out_of_range) = 30
   \<and> error (handleGenerate example_validating_server example_generate_state) = Some (Text ''days'')"
  by code_simp

subsection \<open>Slot targets\<close>

lemma sum_list_slot_targets:
  "0 < m \<Longrightarrow> sum_list (slot_targets rnd daily m) = daily"
  by (simp add: slot_targets_def Let_def sum_list_replicate)

lemma replace_target_fallback:
  assumes "active_meal d aday n = None" and "q_meals_per_day (request d) = of_nat m" and "0 < m"
  shows "replace_target d aday n = Some (q_calories (request d) / of_nat m)
       \<and> sum_list (replicate m (q_calories (request d) / of_nat m)) = q_calories (request d)"
  using assms by (simp add: replace_target_def sum_list_replicate)

lemma replace_target_stored:
  "active_meal d aday n = Some ml \<Longrightarrow> replace_target d aday n = Some (api_target_calories ml)"
  by (simp add: replace_target_def)

text \<open>
  C8. The slot targets of a day are an even split of the daily calorie total across the
  meals of the day: every slot but the last gets the total divided by the number of meals
  and rounded to an integer, and the last slot absorbs what the rounding leaves, so that
  the targets of the day sum exactly to the daily total. The meal-plan page takes the
  target that the plan stores with a meal; for a meal without one it takes the daily
  calories divided by the meals per day, unrounded, which over the meals of a day sums to
  the daily calories as well.
\<close>

theorem slot_targets_sum_to_daily_total:
  assumes "0 < m"
  shows "length (slot_targets rnd daily m) = m
       \<and> sum_list (slot_targets rnd daily m) = daily
       \<and> (\<forall>i < m - 1. slot_targets rnd daily m ! i = of_int (rnd (daily / of_nat m)))
       \<and> last (slot_targets rnd daily m) = daily - of_nat (m - 1) * of_int (rnd (daily / of_nat m))
       \<and> (\<forall>ml. active_meal d aday n = Some ml \<longrightarrow>
              replace_target d aday n = Some (api_target_calories ml))
       \<and> (active_meal d aday n = None \<and> q_meals_per_day (request d) = of_nat m \<longrightarrow>
              replace_target d aday n = Some (q_calories (request d) / of_nat m)
            \<and> sum_list (replicate m (q_calories (request d) / of_nat m)) = q_calories (request d))"
proof -
  have 1: "length (slot_targets rnd daily m) = m"
    using assms by (simp add: slot_targets_def Let_def)
  have 2: "sum_list (slot_targets rnd daily m) = daily"
    using assms by (rule sum_list_slot_targets)
  have 3: "\<forall>i < m - 1. slot_targets rnd daily m ! i = of_int (rnd (daily / of_nat m))"
    using assms by (simp add: slot_targets_def Let_def nth_append)
  have 4: "last (slot_targets rnd daily m) = daily - of_nat (m - 1) * of_int (rnd (daily / of_nat m))"
    using assms by (simp add: slot_targets_def Let_def)
  have 5: "\<forall>ml. active_meal d aday n = Some ml \<longrightarrow>
              replace_target d aday n = Some (api_target_calories ml)"
    by (intro allI impI) (rule replace_target_stored)
  have 6: "active_meal d aday n = None \<and> q_meals_per_day (request d) = of_nat m \<longrightarrow>
              replace_target d aday n = Some (q_calories (request d) / of_nat m)
            \<and> sum_list (replicate m (q_calories (request d) / of_nat m)) = q_calories (request d)"
  proof
    assume a: "active_meal d aday n = None \<and> q_meals_per_day (request d) = of_nat m"
    from a have "active_meal d aday n = None" by (rule conjunct1)
    moreover from a have "q_meals_per_day (request d) = of_nat m" by (rule conjunct2)
    ultimately show "replace_target d aday n = Some (q_calories (request d) / of_nat m)
            \<and> sum_list (replicate m (q_calories (request d) / of_nat m)) = q_calories (request d)"
      using assms by (rule replace_target_fallback)
  qed
  from 1 2 3 4 5 6 show ?thesis by (intro conjI)
qed

theorem slot_targets_sum_to_daily_total_witness:
  "slot_targets floor 2000 3 = [666, 666, 668]
   \<and> length (slot_targets floor 2000 3) = 3
   \<and> sum_list (slot_targets floor 2000 3) = 2000
   \<and> replace_target example_response 1 2 = Some 600
   \<and> replace_target example_response 1 5 = Some (1800 / 3)
   \<and> sum_list (replicate 3 (1800 / 3 :: rat)) = 1800"
proof -
  have v: "slot_targets floor 2000 3 = [666, 666, 668]" by code_simp
  have s: "active_meal example_response 1 2 = Some (example_api_meal 2)"
    and t: "api_target_calories (example_api_meal 2) = 600"
    and n: "active_meal example_response 1 5 = None"
    and q: "q_meals_per_day (request example_response) = of_nat 3"
    and c: "q_calories (request example_response) = 1800"
    by code_simp+
  note a = slot_targets_sum_to_daily_total [of 3 floor 2000 example_response 1 2]
  note b = slot_targets_sum_to_daily_total [of 3 floor 2000 example_response 1 5]
  from a v have 1: "length (slot_targets floor 2000 3) = 3"
    and 2: "sum_list (slot_targets floor 2000 3) = 2000"
    by simp_all
  from a s t have 3: "replace_target example_response 1 2 = Some 600" by simp
  from b n q c have 4: "replace_target example_response 1 5 = Some (1800 / 3)"
    and 5: "sum_list (replicate 3 (1800 / 3 :: rat)) = 1800"
    by simp_all
  from v 1 2 3 4 5 show ?thesis by (intro conjI)
qed

subsection \<open>The calorie calculator\<close>

text \<open>
  C9. For every sex, age, height and weight the calculator shows
  BMR = round(10 w + 6.25 h - 5 age + 5) for male and round(10 w + 6.25 h - 5 age - 161)
  for female; TDEE = round(base * multiplier) with the multiplier 1.2, 1.375, 1.55, 1.725
  or 1.9 of the activity level; and the recommendation round(tdee * 0.85) under deficit,
  round(tdee * 1.1) under surplus and round(tdee) under maintain, where base and tdee are
  the unrounded values.
\<close>

theorem calorie_calculator_formula:
  fixes age height weight :: rat and sex :: Sex and activity :: Activity
  defines "base \<equiv> 10 * weight + 6.25 * height - 5 * age + (case sex of male \<Rightarrow> 5 | female \<Rightarrow> - 161)"
  defines "mult \<equiv> (case activity of sedentary \<Rightarrow> 1.2 | light \<Rightarrow> 1.375 | moderate \<Rightarrow> 1.55
                      | very \<Rightarrow> 1.725 | extra \<Rightarrow> 1.9)"
  shows "res_bmr (calc_result sex age height weight activity goal) = Math_round base
       \<and> res_tdee (calc_result sex age height weight activity goal) = Math_round (base * mult)
       \<and> res_recommended (calc_result sex age height weight activity goal) =
           (case goal of deficit \<Rightarrow> Math_round (base * mult * 0.85)
                       | surplus \<Rightarrow> Math_round (base * mult * 1.1)
                       | goal_maintain \<Rightarrow> Math_round (base * mult))"
proof -
  have b: "bmr sex weight height age = base"
    by (cases sex) (simp_all add: bmr_def base_def Let_def)
  have m: "activityMultiplier activity = mult"
    by (cases activity) (simp_all add: mult_def)
  show ?thesis
    by (cases goal) (simp_all add: calc_result_def Let_def b m)
qed

subsection \<open>Allergy list normalisation\<close>

text \<open>
  C10. For every allergies text of the planner form, the generate-plan payload and the
  replace-meal payload carry the same allergies array: the comma-split tokens of the text,
  each trimmed, the empty ones removed. No element of the array is empty, starts with
  white space or ends with white space.
\<close>

theorem allergies_normalised:
  "g_allergies (generate_payload f) = parse_allergies (form_allergies f)
   \<and> r_allergies (replace_payload f aday slt target excludeIds) = parse_allergies (form_allergies f)
   \<and> (\<forall>a \<in> set (g_allergies (generate_payload f)).
         a \<noteq> [] \<and> \<not> is_space (hd a) \<and> \<not> is_space (last a))
   \<and> (\<forall>a \<in> set (r_allergies (replace_payload f aday slt target excludeIds)).
         a \<noteq> [] \<and> \<not> is_space (hd a) \<and> \<not> is_space (last a))"
proof -
  have g: "g_allergies (generate_payload f) = parse_allergies (form_allergies f)"
    by (simp add: generate_payload_def parse_allergies_def)
  have r: "r_allergies (replace_payload f aday slt target excludeIds)
             = parse_allergies (form_allergies f)"
    by (simp add: replace_payload_def parse_allergies_def)
  show ?thesis
    unfolding g r using parse_allergies_clean by blast
qed

theorem allergies_normalised_witness:
  "g_allergies (generate_payload example_form) = [''nuts'', ''dairy'']
   \<and> r_allergies (replace_payload example_form 1 ''lunch'' 600 [7]) = [''nuts'', ''dairy'']
   \<and> \<not> is_space (hd ''nuts'') \<and> \<not> is_space (last ''nuts'')"
proof -
  have g: "parse_allergies (form_allergies example_form) = [''nuts'', ''dairy'']" by code_simp
  note t = allergies_normalised [of example_form 1 "''lunch''" 600 "[7]"]
  from t g have 1: "g_allergies (generate_payload example_form) = [''nuts'', ''dairy'']"
    and 2: "r_allergies (replace_payload example_form 1 ''lunch'' 600 [7]) = [''nuts'', ''dairy'']"
    by simp_all
  from t have "\<forall>a \<in> set (g_allergies (generate_payload example_form)).
                 a \<noteq> [] \<and> \<not> is_space (hd a) \<and> \<not> is_space (last a)"
    by (elim conjE)
  moreover have "''nuts'' \<in> set (g_allergies (generate_payload example_form))"
    unfolding 1 by simp
  ultimately have 3: "''nuts'' \<noteq> [] \<and> \<not> is_space (hd ''nuts'') \<and> \<not> is_space (last ''nuts'')"
    by (rule bspec)
  from 1 2 3 show ?thesis by (intro conjI) (elim conjE, assumption)+
qed

end
